theory Spec2Isabelle
  imports Main "HOL-Library.Word" "HOL-Library.Sublist" "HOL-Library.Multiset"
begin

section \<open>Values shared by both probes\<close>

text \<open>
  Go's \<^verbatim>\<open>int\<close> (on the 64-bit platforms the probes are built for) and \<^verbatim>\<open>int64\<close>
  are 64-bit two's complement integers: \<open>+\<close> and \<open>-\<close> wrap around, comparisons
  read the value as signed (\<open>sint\<close>).
\<close>

type_synonym go_int = "64 word"
type_synonym int64 = "64 word"

text \<open>
  A Go \<^verbatim>\<open>error\<close> is used by the probes only through its message
  (\<^verbatim>\<open>err.Error()\<close>), so an error value is its message.
\<close>

datatype error = errorString string

fun Error :: "error \<Rightarrow> string" where
  "Error (errorString s) = s"

text \<open>\<^verbatim>\<open>errors.Wrap(err, message)\<close>: the message, a colon and the cause's message.\<close>

definition errors_Wrap :: "error \<Rightarrow> string \<Rightarrow> error" where
  "errors_Wrap err message = errorString (message @ '': '' @ Error err)"

text \<open>
  \<^verbatim>\<open>strings.Contains(s, substr)\<close>: \<open>substr\<close> occurs in \<open>s\<close> as a contiguous run of
  bytes (the empty string occurs in every string).
\<close>

fun strings_Contains :: "string \<Rightarrow> string \<Rightarrow> bool" where
  "strings_Contains [] substr = (substr = [])"
| "strings_Contains (c # s) substr = (prefix substr (c # s) \<or> strings_Contains s substr)"

text \<open>
  The \<^verbatim>\<open>%d\<close> verb of \<^verbatim>\<open>fmt.Sprintf\<close> on a length (never negative): the decimal
  digits, most significant first, no padding.
\<close>

definition digit_char :: "nat \<Rightarrow> char" where
  "digit_char d = ''0123456789'' ! d"

fun fmt_d :: "nat \<Rightarrow> string" where
  "fmt_d n = (if n < 10 then [digit_char n] else fmt_d (n div 10) @ [digit_char (n mod 10)])"

declare fmt_d.simps [simp del]

text \<open>The inverse reading of a digit string, used to state that a count can be read back.\<close>

definition digit_val :: "char \<Rightarrow> nat" where
  "digit_val ch = of_char ch - 48"

fun read_d :: "nat \<Rightarrow> string \<Rightarrow> nat" where
  "read_d acc [] = acc"
| "read_d acc (ch # s) = read_d (10 * acc + digit_val ch) s"

text \<open>The exit codes of the monitoring-plugin convention, as the nagios package names them.\<close>

datatype nagios_code = OK | WARNING | CRITICAL | UNKNOWN

text \<open>
  How a probe ends: \<^verbatim>\<open>p.Exit(code, message)\<close>, \<^verbatim>\<open>p.Fatal(err)\<close>, or a run-time
  panic (a nil pointer dereference).
\<close>

datatype outcome = Exit nagios_code string | Fatal error | Panicked

subsection \<open>The orchestrator's records\<close>

text \<open>
  Modelled from the spec: the declarations of the orchestrator's client package
  (\<^verbatim>\<open>api.Resources\<close>, \<^verbatim>\<open>api.Job\<close>, \<^verbatim>\<open>api.Node\<close>, the listing stubs) are not part of
  the repository. The records below carry the fields the probes read, with the shape the
  interface description gives them: a task always has resources and a node always has
  total resources; a task group's ephemeral disk and a node's reserved resources are
  optional, and the probes test both for nil. The failed task-group allocations of an
  evaluation and the exhausted dimensions of one such allocation are Go maps; a map is
  the list of its entries in the order in which the \<^verbatim>\<open>range\<close> statement visits them.
  Go leaves that order open, so every order is an input here.
\<close>

record Resources =
  CPU :: go_int
  MemoryMB :: go_int
  DiskMB :: go_int
  IOPS :: go_int

record EphemeralDisk =
  SizeMB :: go_int

record Task =
  task_Resources :: Resources

record TaskGroup =
  tg_EphemeralDisk :: "EphemeralDisk option"
  tg_Tasks :: "Task list"

record Job =
  job_Status :: string
  job_TaskGroups :: "TaskGroup list"

record JobListStub =
  stub_ID :: string
  stub_Status :: string
  stub_SubmitTime :: int64

record AllocationListStub =
  alloc_ID :: string
  alloc_CreateTime :: int64
  alloc_ClientStatus :: string

record AllocationMetric =
  DimensionExhausted :: "(string \<times> go_int) list"

record Evaluation =
  eval_JobID :: string
  FailedTGAllocs :: "(string \<times> AllocationMetric) list"

record NodeListStub =
  nstub_ID :: string

record Node =
  Node_Resources :: Resources
  Node_Reserved :: "Resources option"

text \<open>
  The client, as the probes use it: one answer per read operation. A scan reads the
  orchestrator as it stands, so each remote query is a function of its arguments; an
  answer is the error or the value.
\<close>

record client =
  Jobs_List :: "error + JobListStub list"
  Jobs_Allocations :: "string \<Rightarrow> error + AllocationListStub list"
  Jobs_Info :: "string \<Rightarrow> error + Job"
  Evaluations_List :: "error + Evaluation list"
  Nodes_List :: "error + NodeListStub list"
  Nodes_Info :: "string \<Rightarrow> error + Node"

section \<open>The unplaceable-jobs probe\<close>

text \<open>
  The probe's own records. Both hold a \<^verbatim>\<open>*api.Resources\<close>; the pointer is nil
  (\<open>None\<close>) in what \<open>getResourcesForJob\<close> returns for a job that is gone.
\<close>

record node =
  node_ID :: string
  node_resources :: "Resources option"

record failingJob =
  jobID :: string
  dimension :: string
  resources :: "Resources option"

text \<open>
  The inner loop of \<open>findUnplaceableJobs\<close> over the nodes, for one job: the value of
  \<^verbatim>\<open>unplaceable\<close> when the loop ends. Reading a field through a nil pointer panics.
\<close>

fun findUnplaceableJobs_nodes :: "node list \<Rightarrow> failingJob \<Rightarrow> bool option" where
  "findUnplaceableJobs_nodes [] j = Some True"
| "findUnplaceableJobs_nodes (n # ns) j =
     (case node_resources n of
        None \<Rightarrow> None
      | Some nr \<Rightarrow>
          (case resources j of
             None \<Rightarrow> None
           | Some jr \<Rightarrow>
               if sint (CPU nr) \<ge> sint (CPU jr) \<and>
                  sint (MemoryMB nr) \<ge> sint (MemoryMB jr) \<and>
                  sint (DiskMB nr) \<ge> sint (DiskMB jr)
               then Some False
               else findUnplaceableJobs_nodes ns j))"

text \<open>The outer loop, with \<^verbatim>\<open>unplaceableJobs\<close> as the accumulator; \<open>None\<close> is the panic.\<close>

fun findUnplaceableJobs_jobs :: "node list \<Rightarrow> failingJob list \<Rightarrow> failingJob list \<Rightarrow> failingJob list option" where
  "findUnplaceableJobs_jobs nodes [] unplaceableJobs = Some unplaceableJobs"
| "findUnplaceableJobs_jobs nodes (j # js) unplaceableJobs =
     (case findUnplaceableJobs_nodes nodes j of
        None \<Rightarrow> None
      | Some unplaceable \<Rightarrow>
          if unplaceable
          then findUnplaceableJobs_jobs nodes js (unplaceableJobs @ [j])
          else findUnplaceableJobs_jobs nodes js unplaceableJobs)"

definition findUnplaceableJobs :: "node list \<Rightarrow> failingJob list \<Rightarrow> failingJob list option" where
  "findUnplaceableJobs nodes jobs = findUnplaceableJobs_jobs nodes jobs []"

text \<open>
  \<open>getResourcesForNode\<close>: the node's total resources minus its reserved ones; a node
  without a reserved record reserves nothing. A failed query is wrapped and returned.
\<close>

definition getResourcesForNode :: "client \<Rightarrow> string \<Rightarrow> error + Resources option" where
  "getResourcesForNode c ident =
     (case Nodes_Info c ident of
        Inl err \<Rightarrow> Inl (errors_Wrap err ''querying node'')
      | Inr nd \<Rightarrow>
          (let r = Node_Resources nd;
               res = (case Node_Reserved nd of
                        None \<Rightarrow> \<lparr>CPU = 0, MemoryMB = 0, DiskMB = 0, IOPS = 0\<rparr>
                      | Some rv \<Rightarrow> rv)
           in Inr (Some \<lparr>CPU = CPU r - CPU res,
                          MemoryMB = MemoryMB r - MemoryMB res,
                          DiskMB = DiskMB r - DiskMB res,
                          IOPS = IOPS r - IOPS res\<rparr>)))"

text \<open>The loop of \<open>getNodes\<close> over the node listing, with \<^verbatim>\<open>mynodes\<close> as the accumulator.\<close>

fun getNodes_loop :: "client \<Rightarrow> NodeListStub list \<Rightarrow> node list \<Rightarrow> error + node list" where
  "getNodes_loop c [] mynodes = Inr mynodes"
| "getNodes_loop c (n # ns) mynodes =
     (case getResourcesForNode c (nstub_ID n) of
        Inl err \<Rightarrow> Inl err
      | Inr rs \<Rightarrow> getNodes_loop c ns (mynodes @ [\<lparr>node_ID = nstub_ID n, node_resources = rs\<rparr>]))"

definition getNodes :: "client \<Rightarrow> error + node list" where
  "getNodes c =
     (case Nodes_List c of
        Inl err \<Rightarrow> Inl err
      | Inr nodes \<Rightarrow> getNodes_loop c nodes [])"

text \<open>
  \<open>getResourcesForJob\<close>: the two loops that add up a job's demand into \<^verbatim>\<open>total\<close>,
  tasks inside task groups.
\<close>

fun getResourcesForJob_tasks :: "Task list \<Rightarrow> Resources \<Rightarrow> Resources" where
  "getResourcesForJob_tasks [] total' = total'"
| "getResourcesForJob_tasks (t # ts) total' =
     getResourcesForJob_tasks ts
       (total'\<lparr>CPU := CPU total' + CPU (task_Resources t),
              MemoryMB := MemoryMB total' + MemoryMB (task_Resources t),
              DiskMB := DiskMB total' + DiskMB (task_Resources t)\<rparr>)"

fun getResourcesForJob_groups :: "TaskGroup list \<Rightarrow> Resources \<Rightarrow> Resources" where
  "getResourcesForJob_groups [] total' = total'"
| "getResourcesForJob_groups (tg # tgs) total' =
     getResourcesForJob_groups tgs
       (getResourcesForJob_tasks (tg_Tasks tg)
          (case tg_EphemeralDisk tg of
             None \<Rightarrow> total'
           | Some d \<Rightarrow> total'\<lparr>DiskMB := DiskMB total' + SizeMB d\<rparr>))"

text \<open>
  The result is the job's status and a pointer to the total; for a job that is not found
  it is the status \<^verbatim>\<open>"deleted"\<close> and the nil pointer.
\<close>

definition getResourcesForJob :: "client \<Rightarrow> string \<Rightarrow> error + (string \<times> Resources option)" where
  "getResourcesForJob c jid =
     (case Jobs_Info c jid of
        Inl err \<Rightarrow>
          if strings_Contains (Error err) ''job not found''
          then Inr (''deleted'', None)
          else Inl err
      | Inr job \<Rightarrow>
          Inr (job_Status job,
               Some (getResourcesForJob_groups (job_TaskGroups job)
                       \<lparr>CPU = 0, MemoryMB = 0, DiskMB = 0, IOPS = 0\<rparr>)))"

text \<open>
  \<open>getEvaluations\<close>: three nested loops, all appending to \<^verbatim>\<open>failingJobs\<close>: the
  exhausted dimensions of one failed task-group allocation, the failed allocations of
  one evaluation, the evaluations.
\<close>

fun getEvaluations_dims :: "string \<Rightarrow> Resources option \<Rightarrow> (string \<times> go_int) list \<Rightarrow> failingJob list \<Rightarrow> failingJob list" where
  "getEvaluations_dims jid rs [] failingJobs = failingJobs"
| "getEvaluations_dims jid rs ((dim, _) # ds) failingJobs =
     getEvaluations_dims jid rs ds
       (failingJobs @ [\<lparr>jobID = jid, dimension = dim, resources = rs\<rparr>])"

fun getEvaluations_allocs :: "string \<Rightarrow> Resources option \<Rightarrow> (string \<times> AllocationMetric) list \<Rightarrow> failingJob list \<Rightarrow> failingJob list" where
  "getEvaluations_allocs jid rs [] failingJobs = failingJobs"
| "getEvaluations_allocs jid rs ((_, v) # vs) failingJobs =
     getEvaluations_allocs jid rs vs
       (getEvaluations_dims jid rs (DimensionExhausted v) failingJobs)"

fun getEvaluations_loop :: "client \<Rightarrow> Evaluation list \<Rightarrow> failingJob list \<Rightarrow> error + failingJob list" where
  "getEvaluations_loop c [] failingJobs = Inr failingJobs"
| "getEvaluations_loop c (e # es) failingJobs =
     (if length (FailedTGAllocs e) = 0 then getEvaluations_loop c es failingJobs
      else
        (case getResourcesForJob c (eval_JobID e) of
           Inl err \<Rightarrow> Inl err
         | Inr (jobStatus, rs) \<Rightarrow>
             if jobStatus \<noteq> ''pending'' then getEvaluations_loop c es failingJobs
             else getEvaluations_loop c es
                    (getEvaluations_allocs (eval_JobID e) rs (FailedTGAllocs e) failingJobs)))"

definition getEvaluations :: "client \<Rightarrow> error + failingJob list" where
  "getEvaluations c =
     (case Evaluations_List c of
        Inl err \<Rightarrow> Inl err
      | Inr evals \<Rightarrow> getEvaluations_loop c evals [])"

text \<open>
  \<open>main\<close> of the unplaceable-jobs probe, from the client on (flag parsing and the
  construction of the client come before and are not modelled; nor are the verbose
  lines, which change neither the code nor the message).
\<close>

definition main_unplaceable_jobs :: "client \<Rightarrow> outcome" where
  "main_unplaceable_jobs c =
     (case getEvaluations c of
        Inl err \<Rightarrow> Fatal err
      | Inr failingJobs \<Rightarrow>
          if length failingJobs > 0 then
            (case getNodes c of
               Inl err \<Rightarrow> Fatal err
             | Inr nodes \<Rightarrow>
                 (case findUnplaceableJobs nodes failingJobs of
                    None \<Rightarrow> Panicked
                  | Some unplaceable \<Rightarrow>
                      if length unplaceable > 0
                      then Exit CRITICAL
                             (''CRITICAL - '' @ fmt_d (length unplaceable) @ '' unplaceable jobs'')
                      else Exit OK ''OK - no unplaceable jobs''))
          else Exit OK ''OK - no unplaceable jobs'')"

section \<open>The long-running probe\<close>

text \<open>
  Modelled from the spec: the \<^verbatim>\<open>time\<close> package is Go's standard library and not part
  of the repository; the scan turns a creation timestamp (nanoseconds since the epoch)
  into a time value and asks whether it is earlier than the cutoff. A \<^verbatim>\<open>time.Time\<close>
  without a monotonic reading (neither \<^verbatim>\<open>time.Unix\<close> nor \<^verbatim>\<open>AddDate\<close> returns one) is
  an instant: whole seconds since the epoch and nanoseconds within the second.
  \<^verbatim>\<open>time.Unix(sec, nsec)\<close> normalises a nanosecond count outside one second as the
  library does (Go's \<^verbatim>\<open>/\<close> truncates towards zero); the probe calls it with
  \<^verbatim>\<open>sec = 0\<close> only, where no intermediate value leaves the 64-bit range.
  \<^verbatim>\<open>Before\<close> compares instants.
\<close>

record Time =
  sec :: int
  nsec :: int

definition go_quot :: "int \<Rightarrow> int \<Rightarrow> int" where
  "go_quot a b = sgn a * sgn b * (\<bar>a\<bar> div \<bar>b\<bar>)"

definition time_Unix :: "int64 \<Rightarrow> int64 \<Rightarrow> Time" where
  "time_Unix s ns =
     (if sint ns < 0 \<or> sint ns \<ge> 1000000000 then
        (let n = go_quot (sint ns) 1000000000;
             s' = sint s + n;
             ns' = sint ns - n * 1000000000
         in if ns' < 0 then \<lparr>sec = s' - 1, nsec = ns' + 1000000000\<rparr>
            else \<lparr>sec = s', nsec = ns'\<rparr>)
      else \<lparr>sec = sint s, nsec = sint ns\<rparr>)"

definition time_Before :: "Time \<Rightarrow> Time \<Rightarrow> bool" where
  "time_Before t u = (sec t < sec u \<or> (sec t = sec u \<and> nsec t < nsec u))"

record jobAlloc =
  ja_jobID :: string
  jobDate :: Time
  allocID :: string
  allocDate :: Time
  allocStatus :: string

text \<open>
  The loop of \<open>findLongRunningJobs\<close> over one job's allocations, with
  \<^verbatim>\<open>longRunningAlloc\<close> as the accumulator.
\<close>

fun findLongRunningJobs_allocs :: "JobListStub \<Rightarrow> Time \<Rightarrow> AllocationListStub list \<Rightarrow> jobAlloc list \<Rightarrow> jobAlloc list" where
  "findLongRunningJobs_allocs job thresDate [] longRunningAlloc = longRunningAlloc"
| "findLongRunningJobs_allocs job thresDate (alloc # allocations) longRunningAlloc =
     (let allocDate' = time_Unix 0 (alloc_CreateTime alloc) in
      if time_Before allocDate' thresDate
      then findLongRunningJobs_allocs job thresDate allocations
             (longRunningAlloc @
                [\<lparr>ja_jobID = stub_ID job,
                  jobDate = time_Unix 0 (stub_SubmitTime job),
                  allocID = alloc_ID alloc,
                  allocDate = allocDate',
                  allocStatus = alloc_ClientStatus alloc\<rparr>])
      else findLongRunningJobs_allocs job thresDate allocations longRunningAlloc)"

text \<open>The loop over the job listing.\<close>

fun findLongRunningJobs_jobs :: "client \<Rightarrow> Time \<Rightarrow> JobListStub list \<Rightarrow> jobAlloc list \<Rightarrow> error + jobAlloc list" where
  "findLongRunningJobs_jobs c thresDate [] longRunningAlloc = Inr longRunningAlloc"
| "findLongRunningJobs_jobs c thresDate (job # jobs) longRunningAlloc =
     (if stub_Status job \<noteq> ''running''
      then findLongRunningJobs_jobs c thresDate jobs longRunningAlloc
      else
        (case Jobs_Allocations c (stub_ID job) of
           Inl err \<Rightarrow>
             if strings_Contains (Error err) ''job not found''
             then findLongRunningJobs_jobs c thresDate jobs longRunningAlloc
             else Inl err
         | Inr allocations \<Rightarrow>
             findLongRunningJobs_jobs c thresDate jobs
               (findLongRunningJobs_allocs job thresDate allocations longRunningAlloc)))"

definition findLongRunningJobs :: "client \<Rightarrow> Time \<Rightarrow> error + jobAlloc list" where
  "findLongRunningJobs c thresDate =
     (case Jobs_List c of
        Inl err \<Rightarrow> Inl err
      | Inr jobs \<Rightarrow> findLongRunningJobs_jobs c thresDate jobs [])"

text \<open>
  \<open>main\<close> of the long-running probe, from the scan on: \<open>thresDate\<close> is the value of
  \<^verbatim>\<open>time.Now().AddDate(0, 0, days)\<close> that \<open>main\<close> passes to the scan (the flags, the
  clock and the calendar come before and are not modelled; nor are the verbose lines).
\<close>

definition main_long_running :: "client \<Rightarrow> Time \<Rightarrow> outcome" where
  "main_long_running c thresDate =
     (case findLongRunningJobs c thresDate of
        Inl err \<Rightarrow> Fatal err
      | Inr longRunningAllocs \<Rightarrow>
          if length longRunningAllocs > 0
          then Exit WARNING
                 (''WARNING - Found '' @ fmt_d (length longRunningAllocs) @ '' long running jobs'')
          else Exit OK ''OK - long running jobs'')"

section \<open>Notions of the specification\<close>

text \<open>
  Dominance, in the specification's words: a capacity vector dominates a demand vector
  when every one of the three tracked dimensions of the capacity is at least the demand's.
\<close>

definition spec_dominates :: "Resources \<Rightarrow> Resources \<Rightarrow> bool" where
  "spec_dominates capacity demand =
     (sint (CPU capacity) \<ge> sint (CPU demand) \<and>
      sint (MemoryMB capacity) \<ge> sint (MemoryMB demand) \<and>
      sint (DiskMB capacity) \<ge> sint (DiskMB demand))"

text \<open>
  The long-running scan, in the specification's words. The allocations listing of a job
  (none when the query for it fails), the Allocation Record of a job and one of its
  allocations, the condition under which the pair is reported, and every pair of a listed
  job and one of its listed allocations, in listing order.
\<close>

definition spec_allocations :: "client \<Rightarrow> JobListStub \<Rightarrow> AllocationListStub list" where
  "spec_allocations c job =
     (case Jobs_Allocations c (stub_ID job) of Inl _ \<Rightarrow> [] | Inr allocations \<Rightarrow> allocations)"

definition spec_record :: "JobListStub \<Rightarrow> AllocationListStub \<Rightarrow> jobAlloc" where
  "spec_record job alloc =
     \<lparr>ja_jobID = stub_ID job,
      jobDate = time_Unix 0 (stub_SubmitTime job),
      allocID = alloc_ID alloc,
      allocDate = time_Unix 0 (alloc_CreateTime alloc),
      allocStatus = alloc_ClientStatus alloc\<rparr>"

definition spec_long_running :: "Time \<Rightarrow> JobListStub \<Rightarrow> AllocationListStub \<Rightarrow> bool" where
  "spec_long_running thresDate job alloc =
     (stub_Status job = ''running'' \<and>
      time_Before (time_Unix 0 (alloc_CreateTime alloc)) thresDate)"

definition spec_listed :: "client \<Rightarrow> JobListStub list \<Rightarrow> (JobListStub \<times> AllocationListStub) list" where
  "spec_listed c jobs = concat (map (\<lambda>job. map (Pair job) (spec_allocations c job)) jobs)"

text \<open>
  A listed job stops the long-running scan when it is running and the query for its
  allocations fails with anything but "job not found".
\<close>

definition spec_alloc_fatal :: "client \<Rightarrow> JobListStub \<Rightarrow> bool" where
  "spec_alloc_fatal c job =
     (stub_Status job = ''running'' \<and>
      (case Jobs_Allocations c (stub_ID job) of
         Inl err \<Rightarrow> \<not> strings_Contains (Error err) ''job not found''
       | Inr _ \<Rightarrow> False))"

text \<open>
  The evaluation scan, in the specification's words: whether the job of an evaluation is
  pending when fetched again, the demand vector that fetch reports, the Failing Job
  Records of one evaluation (one per exhausted dimension of each of its failed task-group
  allocations, each with the job's demand), the evaluations that stop the scan (a failed
  allocation and a job query that fails with anything but "job not found"), and the
  evaluations that are reported.
\<close>

definition spec_pending :: "client \<Rightarrow> Evaluation \<Rightarrow> bool" where
  "spec_pending c e =
     (case getResourcesForJob c (eval_JobID e) of
        Inl _ \<Rightarrow> False
      | Inr (jobStatus, _) \<Rightarrow> jobStatus = ''pending'')"

definition spec_demand :: "client \<Rightarrow> Evaluation \<Rightarrow> Resources option" where
  "spec_demand c e =
     (case getResourcesForJob c (eval_JobID e) of
        Inl _ \<Rightarrow> None
      | Inr (_, rs) \<Rightarrow> rs)"

definition spec_rows :: "client \<Rightarrow> Evaluation \<Rightarrow> failingJob list" where
  "spec_rows c e =
     concat (map (\<lambda>(_, v). map (\<lambda>(dim, _).
                    \<lparr>jobID = eval_JobID e, dimension = dim, resources = spec_demand c e\<rparr>)
                  (DimensionExhausted v))
               (FailedTGAllocs e))"

definition spec_eval_fatal :: "client \<Rightarrow> Evaluation \<Rightarrow> bool" where
  "spec_eval_fatal c e =
     (FailedTGAllocs e \<noteq> [] \<and> isl (getResourcesForJob c (eval_JobID e)))"

definition spec_reported :: "client \<Rightarrow> Evaluation \<Rightarrow> bool" where
  "spec_reported c e = (FailedTGAllocs e \<noteq> [] \<and> spec_pending c e)"

section \<open>A small cluster\<close>

text \<open>
  A concrete orchestrator state on which the theorems below are run: four listed jobs
  (one of them gone by the time it is queried again), four evaluations, two nodes.
\<close>

definition demo_batch :: Job where
  "demo_batch =
     \<lparr>job_Status = ''pending'',
      job_TaskGroups =
        [\<lparr>tg_EphemeralDisk = Some \<lparr>SizeMB = 300\<rparr>,
          tg_Tasks = [\<lparr>task_Resources = \<lparr>CPU = 500, MemoryMB = 256, DiskMB = 100, IOPS = 0\<rparr>\<rparr>,
                      \<lparr>task_Resources = \<lparr>CPU = 250, MemoryMB = 128, DiskMB = 0, IOPS = 0\<rparr>\<rparr>]\<rparr>,
         \<lparr>tg_EphemeralDisk = None,
          tg_Tasks = [\<lparr>task_Resources = \<lparr>CPU = 100, MemoryMB = 64, DiskMB = 10, IOPS = 0\<rparr>\<rparr>]\<rparr>]\<rparr>"

definition demo_node1 :: Node where
  "demo_node1 =
     \<lparr>Node_Resources = \<lparr>CPU = 4000, MemoryMB = 8192, DiskMB = 100000, IOPS = 150\<rparr>,
      Node_Reserved = Some \<lparr>CPU = 100, MemoryMB = 256, DiskMB = 4096, IOPS = 0\<rparr>\<rparr>"

definition demo_node2 :: Node where
  "demo_node2 =
     \<lparr>Node_Resources = \<lparr>CPU = 400, MemoryMB = 512, DiskMB = 1000, IOPS = 0\<rparr>,
      Node_Reserved = None\<rparr>"

definition demo_client :: client where
  "demo_client =
     \<lparr>Jobs_List = Inr
        [\<lparr>stub_ID = ''web'', stub_Status = ''running'', stub_SubmitTime = 1000\<rparr>,
         \<lparr>stub_ID = ''batch'', stub_Status = ''pending'', stub_SubmitTime = 2000\<rparr>,
         \<lparr>stub_ID = ''gone'', stub_Status = ''running'', stub_SubmitTime = 3000\<rparr>,
         \<lparr>stub_ID = ''api'', stub_Status = ''running'', stub_SubmitTime = 4000\<rparr>],
      Jobs_Allocations = (\<lambda>jid.
        if jid = ''web'' then Inr
          [\<lparr>alloc_ID = ''a1'', alloc_CreateTime = 5, alloc_ClientStatus = ''running''\<rparr>,
           \<lparr>alloc_ID = ''a2'', alloc_CreateTime = 50000000000, alloc_ClientStatus = ''running''\<rparr>,
           \<lparr>alloc_ID = ''a3'', alloc_CreateTime = 7, alloc_ClientStatus = ''complete''\<rparr>]
        else if jid = ''batch'' then Inr
          [\<lparr>alloc_ID = ''b1'', alloc_CreateTime = 1, alloc_ClientStatus = ''pending''\<rparr>]
        else if jid = ''api'' then Inr
          [\<lparr>alloc_ID = ''c1'', alloc_CreateTime = 3, alloc_ClientStatus = ''running''\<rparr>]
        else Inl (errorString ''Unexpected response code: 404 (job not found)'')),
      Jobs_Info = (\<lambda>jid.
        if jid = ''batch'' then Inr demo_batch
        else if jid = ''web'' then Inr \<lparr>job_Status = ''running'', job_TaskGroups = []\<rparr>
        else Inl (errorString ''Unexpected response code: 404 (job not found)'')),
      Evaluations_List = Inr
        [\<lparr>eval_JobID = ''batch'',
          FailedTGAllocs =
            [(''tg1'', \<lparr>DimensionExhausted = [(''memory'', 1), (''cpu'', 2)]\<rparr>),
             (''tg2'', \<lparr>DimensionExhausted = [(''memory'', 1)]\<rparr>)]\<rparr>,
         \<lparr>eval_JobID = ''web'',
          FailedTGAllocs = [(''g'', \<lparr>DimensionExhausted = [(''disk'', 1)]\<rparr>)]\<rparr>,
         \<lparr>eval_JobID = ''gone'',
          FailedTGAllocs = [(''g'', \<lparr>DimensionExhausted = [(''cpu'', 1)]\<rparr>)]\<rparr>,
         \<lparr>eval_JobID = ''batch'', FailedTGAllocs = []\<rparr>],
      Nodes_List = Inr [\<lparr>nstub_ID = ''n1''\<rparr>, \<lparr>nstub_ID = ''n2''\<rparr>],
      Nodes_Info = (\<lambda>nid.
        if nid = ''n1'' then Inr demo_node1
        else if nid = ''n2'' then Inr demo_node2
        else Inl (errorString ''Unexpected response code: 404 (node not found)''))\<rparr>"

text \<open>
  The small cluster with one query failing: the jobs listing, the allocations of one
  running job, every job detail query, the evaluations listing, the nodes listing, and a
  listed node that cannot be fetched.
\<close>

definition demo_jobs_down :: client where
  "demo_jobs_down = demo_client\<lparr>Jobs_List := Inl (errorString ''connection refused'')\<rparr>"

definition demo_allocs_timeout :: client where
  "demo_allocs_timeout =
     demo_client\<lparr>Jobs_Allocations := (\<lambda>jid.
       if jid = ''api'' then Inl (errorString ''timeout'') else Jobs_Allocations demo_client jid)\<rparr>"

definition demo_info_timeout :: client where
  "demo_info_timeout = demo_client\<lparr>Jobs_Info := (\<lambda>jid. Inl (errorString ''timeout''))\<rparr>"

definition demo_evals_down :: client where
  "demo_evals_down = demo_client\<lparr>Evaluations_List := Inl (errorString ''connection refused'')\<rparr>"

definition demo_nodes_down :: client where
  "demo_nodes_down = demo_client\<lparr>Nodes_List := Inl (errorString ''connection refused'')\<rparr>"

definition demo_node_lost :: client where
  "demo_node_lost = demo_client\<lparr>Nodes_List := Inr [\<lparr>nstub_ID = ''n1''\<rparr>, \<lparr>nstub_ID = ''n9''\<rparr>]\<rparr>"

section \<open>Strings\<close>

text \<open>\<open>strings_Contains\<close> is the library's contiguous-sublist relation.\<close>

lemma strings_Contains_sublist: "strings_Contains s substr \<longleftrightarrow> sublist substr s"
  by (induction s) (auto simp: sublist_Cons_right)

section \<open>Placement feasibility\<close>

lemma findUnplaceableJobs_nodes_eq:
  assumes "\<forall>n\<in>set nodes. node_resources n \<noteq> None" and "resources j \<noteq> None"
  shows "findUnplaceableJobs_nodes nodes j =
           Some (\<not> (\<exists>n\<in>set nodes. spec_dominates (the (node_resources n)) (the (resources j))))"
  using assms by (induction nodes) (auto simp: spec_dominates_def split: option.splits)

lemma findUnplaceableJobs_jobs_eq:
  assumes "\<forall>n\<in>set nodes. node_resources n \<noteq> None" and "\<forall>j\<in>set jobs. resources j \<noteq> None"
  shows "findUnplaceableJobs_jobs nodes jobs acc =
           Some (acc @ filter (\<lambda>j. \<not> (\<exists>n\<in>set nodes.
                          spec_dominates (the (node_resources n)) (the (resources j)))) jobs)"
  using assms
proof (induction jobs arbitrary: acc)
  case Nil
  then show ?case by simp
next
  case (Cons j js)
  from Cons.prems have "resources j \<noteq> None" by simp
  with Cons.prems(1) have step: "findUnplaceableJobs_nodes nodes j =
      Some (\<not> (\<exists>n\<in>set nodes. spec_dominates (the (node_resources n)) (the (resources j))))"
    by (rule findUnplaceableJobs_nodes_eq)
  from Cons.prems have rest: "\<forall>j\<in>set js. resources j \<noteq> None" by simp
  show ?case
    by (simp add: step Cons.IH [OF Cons.prems(1) rest])
qed

lemma findUnplaceableJobs_jobs_no_nodes:
  "findUnplaceableJobs_jobs [] jobs acc = Some (acc @ jobs)"
  by (induction jobs arbitrary: acc) simp_all

text \<open>
  C1. For every list of nodes and every list of failing job records (each node carrying
  its capacity vector and each record its demand vector), \<open>findUnplaceableJobs\<close> returns
  exactly the records, in their order, for which no node's capacity dominates the demand
  in CPU, memory and disk, the comparison being inclusive; in particular a record whose
  demand ties some node's capacity on all three dimensions is not returned.
\<close>

theorem findUnplaceableJobs_iff_no_node_dominates:
  assumes "\<forall>n\<in>set nodes. node_resources n \<noteq> None"
    and "\<forall>j\<in>set jobs. resources j \<noteq> None"
  shows "findUnplaceableJobs nodes jobs =
           Some (filter (\<lambda>j. \<not> (\<exists>n\<in>set nodes.
                   spec_dominates (the (node_resources n)) (the (resources j)))) jobs)
         \<and> (\<forall>j\<in>set jobs.
               (\<exists>n\<in>set nodes.
                  CPU (the (node_resources n)) = CPU (the (resources j)) \<and>
                  MemoryMB (the (node_resources n)) = MemoryMB (the (resources j)) \<and>
                  DiskMB (the (node_resources n)) = DiskMB (the (resources j)))
               \<longrightarrow> j \<notin> set (the (findUnplaceableJobs nodes jobs)))"
proof -
  have eq: "findUnplaceableJobs nodes jobs =
           Some (filter (\<lambda>j. \<not> (\<exists>n\<in>set nodes.
                   spec_dominates (the (node_resources n)) (the (resources j)))) jobs)"
    unfolding findUnplaceableJobs_def
    using findUnplaceableJobs_jobs_eq [OF assms, of "[]"] by simp
  have tie: "spec_dominates a b"
    if "CPU a = CPU b" "MemoryMB a = MemoryMB b" "DiskMB a = DiskMB b" for a b
    using that by (simp add: spec_dominates_def)
  show ?thesis
    unfolding eq using tie by auto
qed

text \<open>
  One node of capacity (1000, 2048, 10000) and three records: one that fits, one whose
  CPU demand exceeds the node and one that ties the node. Only the second is returned.
\<close>

theorem findUnplaceableJobs_iff_no_node_dominates_witness:
  "findUnplaceableJobs
     [\<lparr>node_ID = ''a'', node_resources = Some \<lparr>CPU = 1000, MemoryMB = 2048, DiskMB = 10000, IOPS = 0\<rparr>\<rparr>]
     [\<lparr>jobID = ''j'', dimension = ''memory'', resources = Some \<lparr>CPU = 500, MemoryMB = 1024, DiskMB = 5000, IOPS = 0\<rparr>\<rparr>,
      \<lparr>jobID = ''k'', dimension = ''cpu'', resources = Some \<lparr>CPU = 1500, MemoryMB = 1024, DiskMB = 5000, IOPS = 0\<rparr>\<rparr>,
      \<lparr>jobID = ''t'', dimension = ''disk'', resources = Some \<lparr>CPU = 1000, MemoryMB = 2048, DiskMB = 10000, IOPS = 0\<rparr>\<rparr>]
   = Some [\<lparr>jobID = ''k'', dimension = ''cpu'', resources = Some \<lparr>CPU = 1500, MemoryMB = 1024, DiskMB = 5000, IOPS = 0\<rparr>\<rparr>]"
  using findUnplaceableJobs_iff_no_node_dominates
    [of "[\<lparr>node_ID = ''a'', node_resources = Some \<lparr>CPU = 1000, MemoryMB = 2048, DiskMB = 10000, IOPS = 0\<rparr>\<rparr>]"
        "[\<lparr>jobID = ''j'', dimension = ''memory'', resources = Some \<lparr>CPU = 500, MemoryMB = 1024, DiskMB = 5000, IOPS = 0\<rparr>\<rparr>,
          \<lparr>jobID = ''k'', dimension = ''cpu'', resources = Some \<lparr>CPU = 1500, MemoryMB = 1024, DiskMB = 5000, IOPS = 0\<rparr>\<rparr>,
          \<lparr>jobID = ''t'', dimension = ''disk'', resources = Some \<lparr>CPU = 1000, MemoryMB = 2048, DiskMB = 10000, IOPS = 0\<rparr>\<rparr>]"]
  by (simp add: spec_dominates_def)

text \<open>
  C10. With an empty node list every failing job record of the input is returned as
  unplaceable, whatever its demand vector (even a record without one: no node is read).
\<close>

theorem findUnplaceableJobs_no_nodes:
  "findUnplaceableJobs [] jobs = Some jobs"
  unfolding findUnplaceableJobs_def by (simp add: findUnplaceableJobs_jobs_no_nodes)

section \<open>Capacity and demand\<close>

lemma getResourcesForJob_tasks_sums:
  "CPU (getResourcesForJob_tasks ts tot) = CPU tot + (\<Sum>t\<leftarrow>ts. CPU (task_Resources t))"
  "MemoryMB (getResourcesForJob_tasks ts tot) =
     MemoryMB tot + (\<Sum>t\<leftarrow>ts. MemoryMB (task_Resources t))"
  "DiskMB (getResourcesForJob_tasks ts tot) =
     DiskMB tot + (\<Sum>t\<leftarrow>ts. DiskMB (task_Resources t))"
  "IOPS (getResourcesForJob_tasks ts tot) = IOPS tot"
  by (induction ts arbitrary: tot) simp_all

lemma getResourcesForJob_groups_sums:
  "CPU (getResourcesForJob_groups tgs tot) =
     CPU tot + (\<Sum>tg\<leftarrow>tgs. \<Sum>t\<leftarrow>tg_Tasks tg. CPU (task_Resources t))"
  "MemoryMB (getResourcesForJob_groups tgs tot) =
     MemoryMB tot + (\<Sum>tg\<leftarrow>tgs. \<Sum>t\<leftarrow>tg_Tasks tg. MemoryMB (task_Resources t))"
  "DiskMB (getResourcesForJob_groups tgs tot) =
     DiskMB tot + (\<Sum>tg\<leftarrow>tgs. (case tg_EphemeralDisk tg of None \<Rightarrow> 0 | Some d \<Rightarrow> SizeMB d)
                                 + (\<Sum>t\<leftarrow>tg_Tasks tg. DiskMB (task_Resources t)))"
  "IOPS (getResourcesForJob_groups tgs tot) = IOPS tot"
  by (induction tgs arbitrary: tot)
     (simp_all add: getResourcesForJob_tasks_sums split: option.split)

text \<open>
  Go's sum of a list of non-negative integers is their sum as integers as long as that
  sum stays below \<open>2 ^ 63\<close>.
\<close>

lemma sint_sum_list_no_overflow:
  fixes xs :: "go_int list"
  assumes "\<forall>x\<in>set xs. 0 \<le> sint x" and "(\<Sum>x\<leftarrow>xs. sint x) < 2 ^ 63"
  shows "sint (sum_list xs) = (\<Sum>x\<leftarrow>xs. sint x)"
  using assms
proof (induction xs)
  case Nil
  then show ?case by simp
next
  case (Cons x xs)
  from Cons.prems have nn: "0 \<le> sint x" and rest: "\<forall>y\<in>set xs. 0 \<le> sint y" by simp_all
  from rest have nonneg: "0 \<le> (\<Sum>y\<leftarrow>xs. sint y)" by (induction xs) simp_all
  with Cons.prems(2) nn have small: "(\<Sum>y\<leftarrow>xs. sint y) < 2 ^ 63" by simp
  from Cons.IH [OF rest small] have ih: "sint (sum_list xs) = (\<Sum>y\<leftarrow>xs. sint y)" .
  have "sint (x + sum_list xs) = signed_take_bit 63 (sint x + sint (sum_list xs))"
    by (simp add: sint_word_ariths)
  also have "\<dots> = sint x + sint (sum_list xs)"
    using Cons.prems(2) nn nonneg by (intro signed_take_bit_int_eq_self) (simp_all add: ih)
  finally show ?case by (simp add: ih)
qed

text \<open>
  C4. For every job detail record the orchestrator returns, \<open>getResourcesForJob\<close> returns
  the job's status and a demand vector whose CPU, memory and disk components are the sums
  (in Go's integer arithmetic) of that component over every task of every task group; the
  ephemeral-disk size of each task group that has one is added to the disk component and
  to no other.
\<close>

theorem getResourcesForJob_sums:
  assumes "Jobs_Info c jid = Inr job"
  shows "\<exists>tot. getResourcesForJob c jid = Inr (job_Status job, Some tot) \<and>
           CPU tot = (\<Sum>tg\<leftarrow>job_TaskGroups job. \<Sum>t\<leftarrow>tg_Tasks tg. CPU (task_Resources t)) \<and>
           MemoryMB tot =
             (\<Sum>tg\<leftarrow>job_TaskGroups job. \<Sum>t\<leftarrow>tg_Tasks tg. MemoryMB (task_Resources t)) \<and>
           DiskMB tot =
             (\<Sum>tg\<leftarrow>job_TaskGroups job.
                (case tg_EphemeralDisk tg of None \<Rightarrow> 0 | Some d \<Rightarrow> SizeMB d)
                + (\<Sum>t\<leftarrow>tg_Tasks tg. DiskMB (task_Resources t))) \<and>
           IOPS tot = 0"
  using assms by (simp add: getResourcesForJob_def getResourcesForJob_groups_sums)

text \<open>
  The pending job of the small cluster: 500 + 250 + 100 CPU, 256 + 128 + 64 MB of memory,
  and 300 (ephemeral) + 100 + 0 + 10 MB of disk.
\<close>

theorem getResourcesForJob_sums_witness:
  "getResourcesForJob demo_client ''batch'' =
     Inr (''pending'', Some \<lparr>CPU = 850, MemoryMB = 448, DiskMB = 410, IOPS = 0\<rparr>)"
  using getResourcesForJob_sums [of demo_client "''batch''" demo_batch]
  by (auto simp: demo_client_def demo_batch_def)

text \<open>
  C5. For every node detail record the orchestrator returns, \<open>getResourcesForNode\<close> returns
  the node's total resources minus its reserved resources, component by component (CPU,
  memory, disk, iops; in Go's integer arithmetic), a missing reserved record counting as
  the zero vector, so that the available capacity is then the total capacity.
\<close>

theorem getResourcesForNode_total_minus_reserved:
  assumes "Nodes_Info c ident = Inr nd"
    and "res = (case Node_Reserved nd of
                  None \<Rightarrow> \<lparr>CPU = 0, MemoryMB = 0, DiskMB = 0, IOPS = 0\<rparr>
                | Some rv \<Rightarrow> rv)"
  shows "getResourcesForNode c ident =
           Inr (Some \<lparr>CPU = CPU (Node_Resources nd) - CPU res,
                       MemoryMB = MemoryMB (Node_Resources nd) - MemoryMB res,
                       DiskMB = DiskMB (Node_Resources nd) - DiskMB res,
                       IOPS = IOPS (Node_Resources nd) - IOPS res\<rparr>)
         \<and> (Node_Reserved nd = None \<longrightarrow>
              getResourcesForNode c ident = Inr (Some (Node_Resources nd)))"
  using assms by (simp add: getResourcesForNode_def Let_def)

text \<open>The two nodes of the small cluster: one with a reserved record, one without.\<close>

theorem getResourcesForNode_total_minus_reserved_witness:
  "getResourcesForNode demo_client ''n1'' =
     Inr (Some \<lparr>CPU = 3900, MemoryMB = 7936, DiskMB = 95904, IOPS = 150\<rparr>)
   \<and> getResourcesForNode demo_client ''n2'' =
     Inr (Some \<lparr>CPU = 400, MemoryMB = 512, DiskMB = 1000, IOPS = 0\<rparr>)"
proof -
  have q1: "Nodes_Info demo_client ''n1'' = Inr demo_node1"
    and q2: "Nodes_Info demo_client ''n2'' = Inr demo_node2"
    by (simp_all add: demo_client_def)
  have r1: "\<lparr>CPU = 100, MemoryMB = 256, DiskMB = 4096, IOPS = 0\<rparr> =
      (case Node_Reserved demo_node1 of
         None \<Rightarrow> \<lparr>CPU = 0, MemoryMB = 0, DiskMB = 0, IOPS = 0\<rparr> | Some rv \<Rightarrow> rv)"
    by (simp add: demo_node1_def)
  have r2: "\<lparr>CPU = 0, MemoryMB = 0, DiskMB = 0, IOPS = 0\<rparr> =
      (case Node_Reserved demo_node2 of
         None \<Rightarrow> \<lparr>CPU = 0, MemoryMB = 0, DiskMB = 0, IOPS = 0\<rparr> | Some rv \<Rightarrow> rv)"
    by (simp add: demo_node2_def)
  have n2: "Node_Reserved demo_node2 = None"
    by (simp add: demo_node2_def)
  from getResourcesForNode_total_minus_reserved [OF q1 r1]
  have "getResourcesForNode demo_client ''n1'' =
          Inr (Some \<lparr>CPU = 3900, MemoryMB = 7936, DiskMB = 95904, IOPS = 150\<rparr>)"
    by (simp add: demo_node1_def)
  moreover from getResourcesForNode_total_minus_reserved [OF q2 r2] n2
  have "getResourcesForNode demo_client ''n2'' = Inr (Some (Node_Resources demo_node2))"
    by blast
  then have "getResourcesForNode demo_client ''n2'' =
          Inr (Some \<lparr>CPU = 400, MemoryMB = 512, DiskMB = 1000, IOPS = 0\<rparr>)"
    by (simp add: demo_node2_def)
  ultimately show ?thesis by simp
qed

section \<open>Instants\<close>

text \<open>
  \<open>time_Unix 0 ns\<close> is the instant \<open>ns\<close> nanoseconds after the epoch, for every 64-bit
  \<open>ns\<close>, and \<open>time_Before\<close> on two such instants is the order of the nanosecond counts.
\<close>

lemma go_quot_nonneg: "0 \<le> a \<Longrightarrow> 0 < b \<Longrightarrow> go_quot a b = a div b"
  by (simp add: go_quot_def sgn_if)

lemma go_quot_neg: "a < 0 \<Longrightarrow> 0 < b \<Longrightarrow> go_quot a b = - ((- a) div b)"
  by (simp add: go_quot_def sgn_if)

lemma go_quot_remainder:
  fixes n b :: int
  assumes "0 < b"
  shows "- b < n - go_quot n b * b \<and> n - go_quot n b * b < b"
proof -
  have lo: "0 \<le> m mod b" and hi: "m mod b < b" for m using assms by simp_all
  have md: "m - (m div b) * b = m mod b" for m by (simp add: minus_div_mult_eq_mod)
  show ?thesis
  proof (cases "0 \<le> n")
    case True
    then have "n - go_quot n b * b = n mod b"
      using assms by (simp add: go_quot_nonneg md)
    with lo[of n] hi[of n] assms show ?thesis by linarith
  next
    case False
    then have "n - go_quot n b * b = - ((- n) - ((- n) div b) * b)"
      using assms by (simp add: go_quot_neg algebra_simps)
    then have "n - go_quot n b * b = - ((- n) mod b)"
      by (simp only: md)
    with lo[of "- n"] hi[of "- n"] assms show ?thesis by linarith
  qed
qed

lemma unix_normalise:
  fixes n b :: int
  assumes "0 < b"
  shows "(if n - go_quot n b * b < 0
          then (go_quot n b - 1, n - go_quot n b * b + b)
          else (go_quot n b, n - go_quot n b * b)) = (n div b, n mod b)"
proof -
  define q r where "q = go_quot n b" and "r = n - go_quot n b * b"
  have n: "n = b * q + r" by (simp add: q_def r_def)
  have lo: "- b < r" and hi: "r < b"
    using go_quot_remainder[OF assms, of n] by (simp_all add: r_def)
  show ?thesis
  proof (cases "r < 0")
    case True
    have eq: "n = b * (q - 1) + (r + b)" by (simp add: n algebra_simps)
    have bounds: "0 \<le> r + b" "r + b < b" using lo True by simp_all
    have "n div b = q - 1" using eq bounds by (rule int_div_pos_eq)
    moreover have "n mod b = r + b" using eq bounds by (rule int_mod_pos_eq)
    ultimately show ?thesis using True by (simp add: q_def r_def)
  next
    case False
    then have nonneg: "0 \<le> r" by simp
    have "n div b = q" using n nonneg hi by (rule int_div_pos_eq)
    moreover have "n mod b = r" using n nonneg hi by (rule int_mod_pos_eq)
    ultimately show ?thesis using False by (simp add: q_def r_def)
  qed
qed

lemma time_Unix_0:
  "time_Unix 0 ns = \<lparr>sec = sint ns div 1000000000, nsec = sint ns mod 1000000000\<rparr>"
proof (cases "sint ns < 0 \<or> sint ns \<ge> 1000000000")
  case True
  have "(0::int) < 1000000000" by simp
  from unix_normalise[OF this, of "sint ns"] True show ?thesis
    by (simp add: time_Unix_def Let_def split: if_splits)
next
  case False
  then show ?thesis by (simp add: time_Unix_def)
qed

lemma time_Before_Unix: "time_Before (time_Unix 0 a) (time_Unix 0 b) \<longleftrightarrow> sint a < sint b"
proof -
  have B: "(0::int) < 1000000000" by simp
  have *: "(x div k < y div k \<or> (x div k = y div k \<and> x mod k < y mod k)) \<longleftrightarrow> x < y"
    if "0 < k" for x y k :: int
  proof
    assume "x < y"
    then show "x div k < y div k \<or> (x div k = y div k \<and> x mod k < y mod k)"
      using that
      by (metis zdiv_mono1 order_le_less mod_div_decomp add_less_cancel_left)
  next
    assume h: "x div k < y div k \<or> (x div k = y div k \<and> x mod k < y mod k)"
    show "x < y"
    proof (rule ccontr)
      assume "\<not> x < y"
      then have "y \<le> x" by simp
      then have "y div k \<le> x div k" using that by (simp add: zdiv_mono1)
      with h have e: "x div k = y div k" and m: "x mod k < y mod k" by auto
      have "x = k * (x div k) + x mod k" "y = k * (y div k) + y mod k" by simp_all
      with e m have "x < y" by (metis add_less_cancel_left)
      with \<open>\<not> x < y\<close> show False by simp
    qed
  qed
  show ?thesis
    by (simp add: time_Unix_0 time_Before_def *[OF B])
qed


section \<open>The long-running scan\<close>

lemma findLongRunningJobs_allocs_eq:
  "findLongRunningJobs_allocs job t as acc =
     acc @ map (spec_record job)
             (filter (\<lambda>a. time_Before (time_Unix 0 (alloc_CreateTime a)) t) as)"
  by (induction as arbitrary: acc) (simp_all add: spec_record_def Let_def)

lemma findLongRunningJobs_jobs_eq:
  "findLongRunningJobs_jobs c t jobs acc =
     (case find (spec_alloc_fatal c) jobs of
        Some job \<Rightarrow> Inl (projl (Jobs_Allocations c (stub_ID job)))
      | None \<Rightarrow>
          Inr (acc @ concat (map (\<lambda>job. map (spec_record job)
                                  (filter (spec_long_running t job) (spec_allocations c job))) jobs)))"
proof (induction jobs arbitrary: acc)
  case Nil
  then show ?case by simp
next
  case (Cons job jobs)
  show ?case
  proof (cases "stub_Status job = ''running''")
    case False
    then have "\<not> spec_alloc_fatal c job"
      and "spec_long_running t job = (\<lambda>a. False)"
      by (simp_all add: spec_alloc_fatal_def spec_long_running_def fun_eq_iff)
    with False show ?thesis
      by (simp add: Cons.IH split: option.split)
  next
    case True
    then have flt: "spec_long_running t job =
        (\<lambda>a. time_Before (time_Unix 0 (alloc_CreateTime a)) t)"
      by (simp add: spec_long_running_def fun_eq_iff)
    show ?thesis
    proof (cases "Jobs_Allocations c (stub_ID job)")
      case (Inl err)
      show ?thesis
      proof (cases "strings_Contains (Error err) ''job not found''")
        case True
        with Inl \<open>stub_Status job = ''running''\<close>
        have "\<not> spec_alloc_fatal c job" and "spec_allocations c job = []"
          by (simp_all add: spec_alloc_fatal_def spec_allocations_def)
        with Inl True \<open>stub_Status job = ''running''\<close> show ?thesis
          by (simp add: Cons.IH split: option.split)
      next
        case False
        with Inl \<open>stub_Status job = ''running''\<close> have "spec_alloc_fatal c job"
          by (simp add: spec_alloc_fatal_def)
        with Inl False \<open>stub_Status job = ''running''\<close> show ?thesis
          by simp
      qed
    next
      case (Inr allocations)
      with True have "\<not> spec_alloc_fatal c job" and "spec_allocations c job = allocations"
        by (simp_all add: spec_alloc_fatal_def spec_allocations_def)
      with Inr True show ?thesis
        by (simp add: Cons.IH flt findLongRunningJobs_allocs_eq split: option.split)
    qed
  qed
qed

lemma spec_listed_blocks:
  "map (\<lambda>(job, alloc). spec_record job alloc)
       (filter (\<lambda>(job, alloc). spec_long_running t job alloc) (spec_listed c jobs)) =
   concat (map (\<lambda>job. map (spec_record job)
                       (filter (spec_long_running t job) (spec_allocations c job))) jobs)"
  by (induction jobs) (simp_all add: spec_listed_def filter_map comp_def)

lemma findLongRunningJobs_Inr:
  assumes "Jobs_List c = Inr jobs" and "findLongRunningJobs c t = Inr res"
  shows "res = map (\<lambda>(job, alloc). spec_record job alloc)
                 (filter (\<lambda>(job, alloc). spec_long_running t job alloc) (spec_listed c jobs))"
  using assms
  by (simp add: findLongRunningJobs_def findLongRunningJobs_jobs_eq spec_listed_blocks
      split: option.splits)


lemma demo_Jobs_List:
  "Jobs_List demo_client = Inr
        [\<lparr>stub_ID = ''web'', stub_Status = ''running'', stub_SubmitTime = 1000\<rparr>,
         \<lparr>stub_ID = ''batch'', stub_Status = ''pending'', stub_SubmitTime = 2000\<rparr>,
         \<lparr>stub_ID = ''gone'', stub_Status = ''running'', stub_SubmitTime = 3000\<rparr>,
         \<lparr>stub_ID = ''api'', stub_Status = ''running'', stub_SubmitTime = 4000\<rparr>]"
  by (simp add: demo_client_def)

lemma demo_findLongRunningJobs:
  "findLongRunningJobs demo_client \<lparr>sec = 10, nsec = 0\<rparr> =
     Inr [\<lparr>ja_jobID = ''web'', jobDate = \<lparr>sec = 0, nsec = 1000\<rparr>, allocID = ''a1'',
           allocDate = \<lparr>sec = 0, nsec = 5\<rparr>, allocStatus = ''running''\<rparr>,
          \<lparr>ja_jobID = ''web'', jobDate = \<lparr>sec = 0, nsec = 1000\<rparr>, allocID = ''a3'',
           allocDate = \<lparr>sec = 0, nsec = 7\<rparr>, allocStatus = ''complete''\<rparr>,
          \<lparr>ja_jobID = ''api'', jobDate = \<lparr>sec = 0, nsec = 4000\<rparr>, allocID = ''c1'',
           allocDate = \<lparr>sec = 0, nsec = 3\<rparr>, allocStatus = ''running''\<rparr>]"
  by (simp add: findLongRunningJobs_def demo_client_def time_Unix_def time_Before_def go_quot_def)

text \<open>
  C2. For every jobs listing and per-job allocations listing on which the scan succeeds,
  the result of \<open>findLongRunningJobs\<close> holds one record for each listed allocation whose
  owning job has status "running" and whose creation instant (\<open>time_Unix 0\<close> of its
  nanosecond timestamp) is strictly before the cutoff, and nothing else: as multisets, the
  result is the image of the listed (job, allocation) pairs that satisfy the condition.
\<close>

theorem findLongRunningJobs_exactly_once:
  assumes "Jobs_List c = Inr jobs"
    and "findLongRunningJobs c thresDate = Inr longRunningAllocs"
  shows "mset longRunningAllocs =
           image_mset (\<lambda>(job, alloc). spec_record job alloc)
             (filter_mset (\<lambda>(job, alloc). spec_long_running thresDate job alloc)
                (mset (spec_listed c jobs)))"
  using findLongRunningJobs_Inr [OF assms] by simp




text \<open>
  The small cluster with the cutoff ten seconds after the epoch: two allocations of
  \<open>web\<close> and the one of \<open>api\<close> are reported; the allocation created at fifty seconds,
  the one of the pending job and the job that is gone are not.
\<close>

theorem findLongRunningJobs_exactly_once_witness:
  "\<exists>res. findLongRunningJobs demo_client \<lparr>sec = 10, nsec = 0\<rparr> = Inr res \<and>
     mset res = mset
         [\<lparr>ja_jobID = ''web'', jobDate = \<lparr>sec = 0, nsec = 1000\<rparr>, allocID = ''a1'',
           allocDate = \<lparr>sec = 0, nsec = 5\<rparr>, allocStatus = ''running''\<rparr>,
          \<lparr>ja_jobID = ''web'', jobDate = \<lparr>sec = 0, nsec = 1000\<rparr>, allocID = ''a3'',
           allocDate = \<lparr>sec = 0, nsec = 7\<rparr>, allocStatus = ''complete''\<rparr>,
          \<lparr>ja_jobID = ''api'', jobDate = \<lparr>sec = 0, nsec = 4000\<rparr>, allocID = ''c1'',
           allocDate = \<lparr>sec = 0, nsec = 3\<rparr>, allocStatus = ''running''\<rparr>]"
proof -
  from findLongRunningJobs_exactly_once [OF demo_Jobs_List demo_findLongRunningJobs]
  have "mset [\<lparr>ja_jobID = ''web'', jobDate = \<lparr>sec = 0, nsec = 1000\<rparr>, allocID = ''a1'',
           allocDate = \<lparr>sec = 0, nsec = 5\<rparr>, allocStatus = ''running''\<rparr>,
          \<lparr>ja_jobID = ''web'', jobDate = \<lparr>sec = 0, nsec = 1000\<rparr>, allocID = ''a3'',
           allocDate = \<lparr>sec = 0, nsec = 7\<rparr>, allocStatus = ''complete''\<rparr>,
          \<lparr>ja_jobID = ''api'', jobDate = \<lparr>sec = 0, nsec = 4000\<rparr>, allocID = ''c1'',
           allocDate = \<lparr>sec = 0, nsec = 3\<rparr>, allocStatus = ''running''\<rparr>] =
     image_mset (\<lambda>(job, alloc). spec_record job alloc)
       (filter_mset (\<lambda>(job, alloc). spec_long_running \<lparr>sec = 10, nsec = 0\<rparr> job alloc)
          (mset (spec_listed demo_client
        [\<lparr>stub_ID = ''web'', stub_Status = ''running'', stub_SubmitTime = 1000\<rparr>,
         \<lparr>stub_ID = ''batch'', stub_Status = ''pending'', stub_SubmitTime = 2000\<rparr>,
         \<lparr>stub_ID = ''gone'', stub_Status = ''running'', stub_SubmitTime = 3000\<rparr>,
         \<lparr>stub_ID = ''api'', stub_Status = ''running'', stub_SubmitTime = 4000\<rparr>])))" .
  with demo_findLongRunningJobs show ?thesis by blast
qed

text \<open>
  C9. The long-running scan does not re-sort: its result is the listing of (job,
  allocation) pairs, jobs in the order of the jobs listing and within each job allocations
  in the order of that job's allocations listing, with the pairs that do not match left
  out; so the identifiers in the result are a subsequence of those in the listings.
\<close>

theorem findLongRunningJobs_listing_order:
  assumes "Jobs_List c = Inr jobs"
    and "findLongRunningJobs c thresDate = Inr longRunningAllocs"
  shows "longRunningAllocs =
           map (\<lambda>(job, alloc). spec_record job alloc)
             (filter (\<lambda>(job, alloc). spec_long_running thresDate job alloc)
                (spec_listed c jobs))
         \<and> subseq (map (\<lambda>r. (ja_jobID r, allocID r)) longRunningAllocs)
                  (map (\<lambda>(job, alloc). (stub_ID job, alloc_ID alloc)) (spec_listed c jobs))"
proof -
  have eq: "longRunningAllocs =
           map (\<lambda>(job, alloc). spec_record job alloc)
             (filter (\<lambda>(job, alloc). spec_long_running thresDate job alloc)
                (spec_listed c jobs))"
    using assms by (rule findLongRunningJobs_Inr)
  have ids: "map (\<lambda>r. (ja_jobID r, allocID r)) longRunningAllocs =
             map (\<lambda>(job, alloc). (stub_ID job, alloc_ID alloc))
               (filter (\<lambda>(job, alloc). spec_long_running thresDate job alloc)
                  (spec_listed c jobs))"
    unfolding eq by (simp add: spec_record_def case_prod_unfold)
  have "subseq (map (\<lambda>(job, alloc). (stub_ID job, alloc_ID alloc))
                  (filter (\<lambda>(job, alloc). spec_long_running thresDate job alloc)
                     (spec_listed c jobs)))
               (map (\<lambda>(job, alloc). (stub_ID job, alloc_ID alloc)) (spec_listed c jobs))"
    by (intro subseq_map subseq_filter_left)
  then have sub: "subseq (map (\<lambda>r. (ja_jobID r, allocID r)) longRunningAllocs)
                  (map (\<lambda>(job, alloc). (stub_ID job, alloc_ID alloc)) (spec_listed c jobs))"
    by (simp only: ids)
  show ?thesis
  proof (rule conjI)
    show "longRunningAllocs =
           map (\<lambda>(job, alloc). spec_record job alloc)
             (filter (\<lambda>(job, alloc). spec_long_running thresDate job alloc)
                (spec_listed c jobs))"
      by (rule eq)
    show "subseq (map (\<lambda>r. (ja_jobID r, allocID r)) longRunningAllocs)
                  (map (\<lambda>(job, alloc). (stub_ID job, alloc_ID alloc)) (spec_listed c jobs))"
      by (rule sub)
  qed
qed


text \<open>
  On the small cluster the record of \<open>api\<close> comes last, as in the jobs listing, although
  its allocation is the oldest.
\<close>

theorem findLongRunningJobs_listing_order_witness:
  "findLongRunningJobs demo_client \<lparr>sec = 10, nsec = 0\<rparr> =
     Inr [\<lparr>ja_jobID = ''web'', jobDate = \<lparr>sec = 0, nsec = 1000\<rparr>, allocID = ''a1'',
           allocDate = \<lparr>sec = 0, nsec = 5\<rparr>, allocStatus = ''running''\<rparr>,
          \<lparr>ja_jobID = ''web'', jobDate = \<lparr>sec = 0, nsec = 1000\<rparr>, allocID = ''a3'',
           allocDate = \<lparr>sec = 0, nsec = 7\<rparr>, allocStatus = ''complete''\<rparr>,
          \<lparr>ja_jobID = ''api'', jobDate = \<lparr>sec = 0, nsec = 4000\<rparr>, allocID = ''c1'',
           allocDate = \<lparr>sec = 0, nsec = 3\<rparr>, allocStatus = ''running''\<rparr>]
   \<and> [\<lparr>ja_jobID = ''web'', jobDate = \<lparr>sec = 0, nsec = 1000\<rparr>, allocID = ''a1'',
           allocDate = \<lparr>sec = 0, nsec = 5\<rparr>, allocStatus = ''running''\<rparr>,
          \<lparr>ja_jobID = ''web'', jobDate = \<lparr>sec = 0, nsec = 1000\<rparr>, allocID = ''a3'',
           allocDate = \<lparr>sec = 0, nsec = 7\<rparr>, allocStatus = ''complete''\<rparr>,
          \<lparr>ja_jobID = ''api'', jobDate = \<lparr>sec = 0, nsec = 4000\<rparr>, allocID = ''c1'',
           allocDate = \<lparr>sec = 0, nsec = 3\<rparr>, allocStatus = ''running''\<rparr>] =
     map (\<lambda>(job, alloc). spec_record job alloc)
       (filter (\<lambda>(job, alloc). spec_long_running \<lparr>sec = 10, nsec = 0\<rparr> job alloc)
          (spec_listed demo_client
        [\<lparr>stub_ID = ''web'', stub_Status = ''running'', stub_SubmitTime = 1000\<rparr>,
         \<lparr>stub_ID = ''batch'', stub_Status = ''pending'', stub_SubmitTime = 2000\<rparr>,
         \<lparr>stub_ID = ''gone'', stub_Status = ''running'', stub_SubmitTime = 3000\<rparr>,
         \<lparr>stub_ID = ''api'', stub_Status = ''running'', stub_SubmitTime = 4000\<rparr>]))"
  using findLongRunningJobs_listing_order [OF demo_Jobs_List demo_findLongRunningJobs]
        demo_findLongRunningJobs
  by blast

section \<open>Reported status\<close>

lemma digit_val_digit_char: "d < 10 \<Longrightarrow> digit_val (digit_char d) = d"
proof -
  assume "d < 10"
  then have "d \<in> {0, 1, 2, 3, 4, 5, 6, 7, 8, 9}" by auto
  then show ?thesis by (auto simp: digit_char_def digit_val_def)
qed

lemma read_d_append: "read_d acc (xs @ ys) = read_d (read_d acc xs) ys"
  by (induction xs arbitrary: acc) simp_all

lemma fmt_d_read_d: "read_d 0 (fmt_d n) = n"
proof (induction n rule: fmt_d.induct)
  case (1 n)
  show ?case
  proof (cases "n < 10")
    case True
    then show ?thesis by (simp add: fmt_d.simps [of n] digit_val_digit_char)
  next
    case False
    with 1 have "read_d 0 (fmt_d (n div 10)) = n div 10" by simp
    with False show ?thesis
      by (simp add: fmt_d.simps [of n] read_d_append digit_val_digit_char)
  qed
qed


text \<open>
  C8. For every successful long-running scan, \<open>main\<close> exits with OK when no allocation
  matches and with WARNING when one or more do; the WARNING message carries the number of
  matching allocations in decimal (reading the digits back gives the number).
\<close>

theorem main_long_running_status:
  assumes "findLongRunningJobs c thresDate = Inr longRunningAllocs"
  shows "(length longRunningAllocs = 0 \<longrightarrow>
            main_long_running c thresDate = Exit OK ''OK - long running jobs'')
         \<and> (length longRunningAllocs \<ge> 1 \<longrightarrow>
            main_long_running c thresDate =
              Exit WARNING (''WARNING - Found '' @ fmt_d (length longRunningAllocs)
                            @ '' long running jobs'')
            \<and> read_d 0 (fmt_d (length longRunningAllocs)) = length longRunningAllocs)"
  using assms by (auto simp: main_long_running_def fmt_d_read_d)


text \<open>The small cluster with a cutoff after the epoch (three matches) and before it (none).\<close>

theorem main_long_running_status_witness:
  "main_long_running demo_client \<lparr>sec = 10, nsec = 0\<rparr> =
     Exit WARNING ''WARNING - Found 3 long running jobs''
   \<and> main_long_running demo_client \<lparr>sec = - 1, nsec = 0\<rparr> = Exit OK ''OK - long running jobs''"
proof -
  have r2: "findLongRunningJobs demo_client \<lparr>sec = - 1, nsec = 0\<rparr> = Inr []"
    by (simp add: findLongRunningJobs_def demo_client_def time_Unix_def time_Before_def go_quot_def)
  have three: "fmt_d (Suc (Suc (Suc 0))) = ''3''" by (simp add: fmt_d.simps digit_char_def)
  from main_long_running_status [OF demo_findLongRunningJobs] main_long_running_status [OF r2] three
  show ?thesis by simp
qed

section \<open>The evaluation scan\<close>

lemma getEvaluations_dims_eq:
  "getEvaluations_dims jid rs ds acc =
     acc @ map (\<lambda>(dim, _). \<lparr>jobID = jid, dimension = dim, resources = rs\<rparr>) ds"
  by (induction ds arbitrary: acc) auto

lemma getEvaluations_allocs_eq:
  "getEvaluations_allocs jid rs vs acc =
     acc @ concat (map (\<lambda>(_, v). map (\<lambda>(dim, _).
                          \<lparr>jobID = jid, dimension = dim, resources = rs\<rparr>)
                        (DimensionExhausted v)) vs)"
  by (induction vs arbitrary: acc) (auto simp: getEvaluations_dims_eq)

lemma getEvaluations_loop_eq:
  "getEvaluations_loop c es acc =
     (case find (spec_eval_fatal c) es of
        Some e \<Rightarrow> Inl (projl (getResourcesForJob c (eval_JobID e)))
      | None \<Rightarrow> Inr (acc @ concat (map (spec_rows c) (filter (spec_reported c) es))))"
proof (induction es arbitrary: acc)
  case Nil
  then show ?case by simp
next
  case (Cons e es)
  show ?case
  proof (cases "FailedTGAllocs e = []")
    case True
    then have "\<not> spec_eval_fatal c e" "\<not> spec_reported c e"
      by (simp_all add: spec_eval_fatal_def spec_reported_def)
    with True show ?thesis by (simp add: Cons.IH split: option.split)
  next
    case False
    show ?thesis
    proof (cases "getResourcesForJob c (eval_JobID e)")
      case (Inl err)
      with False have "spec_eval_fatal c e" by (simp add: spec_eval_fatal_def)
      with False Inl show ?thesis by simp
    next
      case (Inr p)
      obtain jobStatus rs where p: "p = (jobStatus, rs)" by (cases p)
      from False Inr have nf: "\<not> spec_eval_fatal c e" by (simp add: spec_eval_fatal_def)
      show ?thesis
      proof (cases "jobStatus = ''pending''")
        case True
        with False Inr p have rep: "spec_reported c e"
          and rows: "spec_rows c e =
            concat (map (\<lambda>(_, v). map (\<lambda>(dim, _).
                           \<lparr>jobID = eval_JobID e, dimension = dim, resources = rs\<rparr>)
                         (DimensionExhausted v)) (FailedTGAllocs e))"
          by (simp_all add: spec_reported_def spec_pending_def spec_demand_def spec_rows_def)
        from False Inr p True nf rep show ?thesis
          by (simp add: Cons.IH getEvaluations_allocs_eq rows split: option.split)
      next
        case ne: False
        with Inr p have "\<not> spec_reported c e"
          by (simp add: spec_reported_def spec_pending_def)
        with False Inr p ne nf show ?thesis
          by (simp add: Cons.IH split: option.split)
      qed
    qed
  qed
qed

lemma spec_pending_demand:
  assumes "spec_pending c e"
  shows "\<exists>job. Jobs_Info c (eval_JobID e) = Inr job \<and> job_Status job = ''pending'' \<and>
           spec_demand c e = Some (getResourcesForJob_groups (job_TaskGroups job)
                                     \<lparr>CPU = 0, MemoryMB = 0, DiskMB = 0, IOPS = 0\<rparr>)"
  using assms
  by (auto simp: spec_pending_def spec_demand_def getResourcesForJob_def
      split: sum.splits if_splits)

lemma spec_rows_jobID: "r \<in> set (spec_rows c e) \<Longrightarrow> jobID r = eval_JobID e \<and> resources r = spec_demand c e"
  by (auto simp: spec_rows_def)

lemma getEvaluations_Inr:
  assumes "Evaluations_List c = Inr evals" and "getEvaluations c = Inr failingJobs"
  shows "failingJobs = concat (map (spec_rows c) (filter (spec_reported c) evals))"
  using assms by (simp add: getEvaluations_def getEvaluations_loop_eq split: option.splits)

lemma demo_Evaluations_List:
  "Evaluations_List demo_client = Inr
        [\<lparr>eval_JobID = ''batch'',
          FailedTGAllocs =
            [(''tg1'', \<lparr>DimensionExhausted = [(''memory'', 1), (''cpu'', 2)]\<rparr>),
             (''tg2'', \<lparr>DimensionExhausted = [(''memory'', 1)]\<rparr>)]\<rparr>,
         \<lparr>eval_JobID = ''web'',
          FailedTGAllocs = [(''g'', \<lparr>DimensionExhausted = [(''disk'', 1)]\<rparr>)]\<rparr>,
         \<lparr>eval_JobID = ''gone'',
          FailedTGAllocs = [(''g'', \<lparr>DimensionExhausted = [(''cpu'', 1)]\<rparr>)]\<rparr>,
         \<lparr>eval_JobID = ''batch'', FailedTGAllocs = []\<rparr>]"
  by (simp add: demo_client_def)

lemma demo_getEvaluations:
  "getEvaluations demo_client =
     Inr [\<lparr>jobID = ''batch'', dimension = ''memory'',
            resources = Some \<lparr>CPU = 850, MemoryMB = 448, DiskMB = 410, IOPS = 0\<rparr>\<rparr>,
          \<lparr>jobID = ''batch'', dimension = ''cpu'',
            resources = Some \<lparr>CPU = 850, MemoryMB = 448, DiskMB = 410, IOPS = 0\<rparr>\<rparr>,
          \<lparr>jobID = ''batch'', dimension = ''memory'',
            resources = Some \<lparr>CPU = 850, MemoryMB = 448, DiskMB = 410, IOPS = 0\<rparr>\<rparr>]"
  by (simp add: getEvaluations_def demo_client_def getResourcesForJob_def demo_batch_def)


text \<open>
  C3. For every sequence of evaluations on which the scan succeeds, \<open>getEvaluations\<close>
  returns, in order, the records of the evaluations that have at least one failed
  task-group allocation and whose job is pending when fetched again, and of no other
  evaluation: one record for each exhausted dimension found in each failed task-group
  allocation. Every record carries the full demand vector of its job, repeated on each
  row and not merged.
\<close>

theorem getEvaluations_records:
  assumes "Evaluations_List c = Inr evals" and "getEvaluations c = Inr failingJobs"
  shows "failingJobs =
           concat (map (spec_rows c)
                     (filter (\<lambda>e. FailedTGAllocs e \<noteq> [] \<and> spec_pending c e) evals))
         \<and> (\<forall>r\<in>set failingJobs.
              \<exists>job. Jobs_Info c (jobID r) = Inr job \<and> job_Status job = ''pending'' \<and>
                resources r = Some (getResourcesForJob_groups (job_TaskGroups job)
                                      \<lparr>CPU = 0, MemoryMB = 0, DiskMB = 0, IOPS = 0\<rparr>))"
proof (rule conjI)
  have rep: "spec_reported c = (\<lambda>e. FailedTGAllocs e \<noteq> [] \<and> spec_pending c e)"
    by (simp add: fun_eq_iff spec_reported_def)
  from getEvaluations_Inr [OF assms]
  show eq: "failingJobs =
           concat (map (spec_rows c)
                     (filter (\<lambda>e. FailedTGAllocs e \<noteq> [] \<and> spec_pending c e) evals))"
    by (simp only: rep)
  show "\<forall>r\<in>set failingJobs.
              \<exists>job. Jobs_Info c (jobID r) = Inr job \<and> job_Status job = ''pending'' \<and>
                resources r = Some (getResourcesForJob_groups (job_TaskGroups job)
                                      \<lparr>CPU = 0, MemoryMB = 0, DiskMB = 0, IOPS = 0\<rparr>)"
  proof
    fix r assume "r \<in> set failingJobs"
    with eq obtain e where e: "e \<in> set evals" "spec_pending c e" "r \<in> set (spec_rows c e)"
      by auto
    from spec_rows_jobID [OF e(3)] spec_pending_demand [OF e(2)]
    show "\<exists>job. Jobs_Info c (jobID r) = Inr job \<and> job_Status job = ''pending'' \<and>
                resources r = Some (getResourcesForJob_groups (job_TaskGroups job)
                                      \<lparr>CPU = 0, MemoryMB = 0, DiskMB = 0, IOPS = 0\<rparr>)"
      by auto
  qed
qed


text \<open>
  The small cluster: the pending job has two failed task-group allocations with three
  exhausted dimensions in all (memory twice), so three records with the same demand; the
  running job, the job that is gone and the evaluation without a failed allocation give
  none.
\<close>

theorem getEvaluations_records_witness:
  "getEvaluations demo_client =
     Inr [\<lparr>jobID = ''batch'', dimension = ''memory'',
            resources = Some \<lparr>CPU = 850, MemoryMB = 448, DiskMB = 410, IOPS = 0\<rparr>\<rparr>,
          \<lparr>jobID = ''batch'', dimension = ''cpu'',
            resources = Some \<lparr>CPU = 850, MemoryMB = 448, DiskMB = 410, IOPS = 0\<rparr>\<rparr>,
          \<lparr>jobID = ''batch'', dimension = ''memory'',
            resources = Some \<lparr>CPU = 850, MemoryMB = 448, DiskMB = 410, IOPS = 0\<rparr>\<rparr>]
   \<and> (\<exists>job. Jobs_Info demo_client ''batch'' = Inr job \<and> job_Status job = ''pending'' \<and>
         Some \<lparr>CPU = 850, MemoryMB = 448, DiskMB = 410, IOPS = 0\<rparr> =
           Some (getResourcesForJob_groups (job_TaskGroups job)
                   \<lparr>CPU = 0, MemoryMB = 0, DiskMB = 0, IOPS = 0\<rparr>))"
  using getEvaluations_records [OF demo_Evaluations_List demo_getEvaluations]
        demo_getEvaluations
  by simp


section \<open>The unplaceable-jobs probe as a whole\<close>

lemma getResourcesForNode_Some:
  "getResourcesForNode c ident = Inr rs \<Longrightarrow> rs \<noteq> None"
  by (auto simp: getResourcesForNode_def Let_def split: sum.splits)

lemma getNodes_loop_eq:
  "getNodes_loop c ns acc =
     (case find (\<lambda>n. isl (Nodes_Info c (nstub_ID n))) ns of
        Some n \<Rightarrow> Inl (errors_Wrap (projl (Nodes_Info c (nstub_ID n))) ''querying node'')
      | None \<Rightarrow>
          Inr (acc @ map (\<lambda>n. \<lparr>node_ID = nstub_ID n,
                                 node_resources = projr (getResourcesForNode c (nstub_ID n))\<rparr>) ns))"
proof (induction ns arbitrary: acc)
  case Nil
  then show ?case by simp
next
  case (Cons n ns)
  show ?case
  proof (cases "Nodes_Info c (nstub_ID n)")
    case (Inl err)
    then have "getResourcesForNode c (nstub_ID n) = Inl (errors_Wrap err ''querying node'')"
      by (simp add: getResourcesForNode_def)
    with Inl show ?thesis by simp
  next
    case (Inr nd)
    then obtain rs where "getResourcesForNode c (nstub_ID n) = Inr rs"
      by (simp add: getResourcesForNode_def Let_def)
    with Inr show ?thesis by (simp add: Cons.IH split: option.split)
  qed
qed

lemma getNodes_resources:
  assumes "getNodes c = Inr nodes"
  shows "\<forall>n\<in>set nodes. node_resources n \<noteq> None"
proof -
  obtain ns where ns: "Nodes_List c = Inr ns" and l: "getNodes_loop c ns [] = Inr nodes"
    using assms by (auto simp: getNodes_def split: sum.splits)
  from l have none: "find (\<lambda>n. isl (Nodes_Info c (nstub_ID n))) ns = None"
    and eq: "nodes = map (\<lambda>n. \<lparr>node_ID = nstub_ID n,
                  node_resources = projr (getResourcesForNode c (nstub_ID n))\<rparr>) ns"
    by (auto simp: getNodes_loop_eq split: option.splits)
  have "projr (getResourcesForNode c (nstub_ID n)) \<noteq> None" if "n \<in> set ns" for n
  proof -
    from none that have "\<not> isl (Nodes_Info c (nstub_ID n))"
      by (auto simp: find_None_iff)
    then obtain nd where "Nodes_Info c (nstub_ID n) = Inr nd"
      by (cases "Nodes_Info c (nstub_ID n)") auto
    then show ?thesis by (simp add: getResourcesForNode_def Let_def)
  qed
  then show ?thesis by (auto simp: eq)
qed

lemma getEvaluations_resources:
  assumes "getEvaluations c = Inr failingJobs"
  shows "\<forall>j\<in>set failingJobs. resources j \<noteq> None"
proof -
  obtain evals where ev: "Evaluations_List c = Inr evals"
    using assms by (auto simp: getEvaluations_def split: sum.splits)
  have eq: "failingJobs = concat (map (spec_rows c) (filter (spec_reported c) evals))"
    using ev assms by (rule getEvaluations_Inr)
  show ?thesis
  proof
    fix j assume "j \<in> set failingJobs"
    with eq obtain e where e: "spec_reported c e" "j \<in> set (spec_rows c e)" by auto
    from e(1) have "spec_pending c e" by (simp add: spec_reported_def)
    from spec_pending_demand [OF this] spec_rows_jobID [OF e(2)]
    show "resources j \<noteq> None" by auto
  qed
qed

lemma demo_getNodes:
  "getNodes demo_client =
     Inr [\<lparr>node_ID = ''n1'',
            node_resources = Some \<lparr>CPU = 3900, MemoryMB = 7936, DiskMB = 95904, IOPS = 150\<rparr>\<rparr>,
          \<lparr>node_ID = ''n2'',
            node_resources = Some \<lparr>CPU = 400, MemoryMB = 512, DiskMB = 1000, IOPS = 0\<rparr>\<rparr>]"
  by (simp add: getNodes_def getResourcesForNode_def demo_client_def demo_node1_def demo_node2_def)

lemma demo_getNodes_small:
  "getNodes (demo_client\<lparr>Nodes_List := Inr [\<lparr>nstub_ID = ''n2''\<rparr>]\<rparr>) =
     Inr [\<lparr>node_ID = ''n2'',
            node_resources = Some \<lparr>CPU = 400, MemoryMB = 512, DiskMB = 1000, IOPS = 0\<rparr>\<rparr>]"
  by (simp add: getNodes_def getResourcesForNode_def demo_client_def demo_node2_def)


text \<open>
  C7. For every successful unplaceable-job scan, \<open>main\<close> exits with OK when there is no
  unplaceable record (no failing record at all, in which case the nodes are not read, or
  none that no node can hold) and with CRITICAL when there is one or more; the CRITICAL
  message carries the number of unplaceable records in decimal (reading the digits back
  gives the number). The placement test never panics on what the two scans return.
\<close>

theorem main_unplaceable_jobs_status:
  assumes "getEvaluations c = Inr failingJobs"
  shows "(failingJobs = [] \<longrightarrow>
            main_unplaceable_jobs c = Exit OK ''OK - no unplaceable jobs'')
         \<and> (\<forall>nodes. failingJobs \<noteq> [] \<and> getNodes c = Inr nodes \<longrightarrow>
              (\<exists>unplaceable. findUnplaceableJobs nodes failingJobs = Some unplaceable \<and>
                 (length unplaceable = 0 \<longrightarrow>
                    main_unplaceable_jobs c = Exit OK ''OK - no unplaceable jobs'') \<and>
                 (length unplaceable \<ge> 1 \<longrightarrow>
                    main_unplaceable_jobs c =
                      Exit CRITICAL (''CRITICAL - '' @ fmt_d (length unplaceable)
                                     @ '' unplaceable jobs'')
                    \<and> read_d 0 (fmt_d (length unplaceable)) = length unplaceable)))"
proof (intro conjI allI impI)
  assume "failingJobs = []"
  with assms show "main_unplaceable_jobs c = Exit OK ''OK - no unplaceable jobs''"
    by (simp add: main_unplaceable_jobs_def)
next
  fix nodes
  assume h: "failingJobs \<noteq> [] \<and> getNodes c = Inr nodes"
  then have nodes: "getNodes c = Inr nodes" and ne: "failingJobs \<noteq> []" by simp_all
  from findUnplaceableJobs_jobs_eq [OF getNodes_resources [OF nodes] getEvaluations_resources [OF assms], of "[]"]
  obtain unplaceable where u: "findUnplaceableJobs nodes failingJobs = Some unplaceable"
    by (simp add: findUnplaceableJobs_def)
  show "\<exists>unplaceable. findUnplaceableJobs nodes failingJobs = Some unplaceable \<and>
                 (length unplaceable = 0 \<longrightarrow>
                    main_unplaceable_jobs c = Exit OK ''OK - no unplaceable jobs'') \<and>
                 (length unplaceable \<ge> 1 \<longrightarrow>
                    main_unplaceable_jobs c =
                      Exit CRITICAL (''CRITICAL - '' @ fmt_d (length unplaceable)
                                     @ '' unplaceable jobs'')
                    \<and> read_d 0 (fmt_d (length unplaceable)) = length unplaceable)"
    using assms nodes ne u
    by (auto simp: main_unplaceable_jobs_def fmt_d_read_d)
qed


text \<open>
  The small cluster (the pending job fits on the first node), the same cluster with the
  second node only (its three records are unplaceable), and the cluster without
  evaluations.
\<close>

theorem main_unplaceable_jobs_status_witness:
  "main_unplaceable_jobs demo_client = Exit OK ''OK - no unplaceable jobs''
   \<and> main_unplaceable_jobs (demo_client\<lparr>Nodes_List := Inr [\<lparr>nstub_ID = ''n2''\<rparr>]\<rparr>) =
       Exit CRITICAL ''CRITICAL - 3 unplaceable jobs''
   \<and> main_unplaceable_jobs (demo_client\<lparr>Evaluations_List := Inr []\<rparr>) =
       Exit OK ''OK - no unplaceable jobs''"
proof -
  let ?fjs = "[\<lparr>jobID = ''batch'', dimension = ''memory'',
            resources = Some \<lparr>CPU = 850, MemoryMB = 448, DiskMB = 410, IOPS = 0\<rparr>\<rparr>,
          \<lparr>jobID = ''batch'', dimension = ''cpu'',
            resources = Some \<lparr>CPU = 850, MemoryMB = 448, DiskMB = 410, IOPS = 0\<rparr>\<rparr>,
          \<lparr>jobID = ''batch'', dimension = ''memory'',
            resources = Some \<lparr>CPU = 850, MemoryMB = 448, DiskMB = 410, IOPS = 0\<rparr>\<rparr>]"
  have ev: "getEvaluations (demo_client\<lparr>Nodes_List := Inr [\<lparr>nstub_ID = ''n2''\<rparr>]\<rparr>) = Inr ?fjs"
    by (simp add: getEvaluations_def demo_client_def getResourcesForJob_def demo_batch_def)
  have quiet: "getEvaluations (demo_client\<lparr>Evaluations_List := Inr []\<rparr>) = Inr []"
    by (simp add: getEvaluations_def)
  have three: "fmt_d (Suc (Suc (Suc 0))) = ''3''" by (simp add: fmt_d.simps digit_char_def)
  from main_unplaceable_jobs_status [OF demo_getEvaluations] demo_getNodes
  have a: "main_unplaceable_jobs demo_client = Exit OK ''OK - no unplaceable jobs''"
    by (auto simp: findUnplaceableJobs_def)
  from main_unplaceable_jobs_status [OF ev] demo_getNodes_small three
  have b: "main_unplaceable_jobs (demo_client\<lparr>Nodes_List := Inr [\<lparr>nstub_ID = ''n2''\<rparr>]\<rparr>) =
       Exit CRITICAL ''CRITICAL - 3 unplaceable jobs''"
    by (auto simp: findUnplaceableJobs_def)
  from main_unplaceable_jobs_status [OF quiet]
  have c: "main_unplaceable_jobs (demo_client\<lparr>Evaluations_List := Inr []\<rparr>) =
       Exit OK ''OK - no unplaceable jobs''"
    by simp
  from a b c show ?thesis by simp
qed

section \<open>Errors of the remote queries\<close>

lemma find_skip: "\<not> P x \<Longrightarrow> find P (pre @ x # post) = find P (pre @ post)"
  by (induction pre) simp_all

lemma find_first: "\<forall>y\<in>set pre. \<not> P y \<Longrightarrow> P x \<Longrightarrow> find P (pre @ x # post) = Some x"
  by (induction pre) simp_all

lemma findLongRunningJobs_skip:
  assumes "Jobs_List c = Inr (pre @ job # post)"
    and "Jobs_Allocations c (stub_ID job) = Inl err"
    and "strings_Contains (Error err) ''job not found''"
  shows "findLongRunningJobs c t = findLongRunningJobs (c\<lparr>Jobs_List := Inr (pre @ post)\<rparr>) t"
proof -
  have nf: "\<not> spec_alloc_fatal c job" and none: "spec_allocations c job = []"
    using assms(2,3) by (simp_all add: spec_alloc_fatal_def spec_allocations_def)
  have "spec_alloc_fatal (c\<lparr>Jobs_List := l\<rparr>) = spec_alloc_fatal c"
    and "spec_allocations (c\<lparr>Jobs_List := l\<rparr>) = spec_allocations c" for l
    by (simp_all add: fun_eq_iff spec_alloc_fatal_def spec_allocations_def)
  then have same: "findLongRunningJobs_jobs (c\<lparr>Jobs_List := l\<rparr>) t jobs acc =
              findLongRunningJobs_jobs c t jobs acc" for l jobs acc
    by (simp add: findLongRunningJobs_jobs_eq split: option.split)
  have "findLongRunningJobs_jobs c t (pre @ job # post) [] =
        findLongRunningJobs_jobs c t (pre @ post) []"
    using find_skip [where P = "spec_alloc_fatal c" and x = job, OF nf]
    by (simp add: findLongRunningJobs_jobs_eq none split: option.split)
  with assms(1) show ?thesis
    by (simp add: findLongRunningJobs_def same)
qed

lemma findLongRunningJobs_abort:
  assumes "Jobs_List c = Inr (pre @ job # post)"
    and "\<forall>j\<in>set pre. \<not> spec_alloc_fatal c j"
    and "stub_Status job = ''running''"
    and "Jobs_Allocations c (stub_ID job) = Inl err"
    and "\<not> strings_Contains (Error err) ''job not found''"
  shows "findLongRunningJobs c t = Inl err"
proof -
  have "spec_alloc_fatal c job"
    using assms(3-5) by (simp add: spec_alloc_fatal_def)
  with assms(2) have "find (spec_alloc_fatal c) (pre @ job # post) = Some job"
    by (rule find_first)
  with assms(1,4) show ?thesis
    by (simp add: findLongRunningJobs_def findLongRunningJobs_jobs_eq)
qed

lemma getEvaluations_skip:
  assumes "Evaluations_List c = Inr (pre @ e # post)"
    and "Jobs_Info c (eval_JobID e) = Inl err"
    and "strings_Contains (Error err) ''job not found''"
  shows "getEvaluations c = getEvaluations (c\<lparr>Evaluations_List := Inr (pre @ post)\<rparr>)"
proof -
  have del: "getResourcesForJob c (eval_JobID e) = Inr (''deleted'', None)"
    using assms(2,3) by (simp add: getResourcesForJob_def)
  then have nf: "\<not> spec_eval_fatal c e" and nr: "\<not> spec_reported c e"
    by (simp_all add: spec_eval_fatal_def spec_reported_def spec_pending_def)
  have res: "getResourcesForJob (c\<lparr>Evaluations_List := l\<rparr>) = getResourcesForJob c" for l
    by (simp add: fun_eq_iff getResourcesForJob_def)
  then have "spec_eval_fatal (c\<lparr>Evaluations_List := l\<rparr>) = spec_eval_fatal c"
    and "spec_reported (c\<lparr>Evaluations_List := l\<rparr>) = spec_reported c"
    and "spec_rows (c\<lparr>Evaluations_List := l\<rparr>) = spec_rows c" for l
    by (simp_all add: fun_eq_iff spec_eval_fatal_def spec_reported_def spec_pending_def
        spec_rows_def spec_demand_def)
  then have same: "getEvaluations_loop (c\<lparr>Evaluations_List := l\<rparr>) es acc =
              getEvaluations_loop c es acc" for l es acc
    by (simp add: getEvaluations_loop_eq res split: option.split)
  have "getEvaluations_loop c (pre @ e # post) [] = getEvaluations_loop c (pre @ post) []"
    using find_skip [where P = "spec_eval_fatal c" and x = e, OF nf]
    by (simp add: getEvaluations_loop_eq nr split: option.split)
  with assms(1) show ?thesis
    by (simp add: getEvaluations_def same)
qed

lemma getEvaluations_abort:
  assumes "Evaluations_List c = Inr (pre @ e # post)"
    and "\<forall>e'\<in>set pre. \<not> spec_eval_fatal c e'"
    and "FailedTGAllocs e \<noteq> []"
    and "Jobs_Info c (eval_JobID e) = Inl err"
    and "\<not> strings_Contains (Error err) ''job not found''"
  shows "getEvaluations c = Inl err"
proof -
  have r: "getResourcesForJob c (eval_JobID e) = Inl err"
    using assms(4,5) by (simp add: getResourcesForJob_def)
  with assms(3) have "spec_eval_fatal c e" by (simp add: spec_eval_fatal_def)
  with assms(2) have "find (spec_eval_fatal c) (pre @ e # post) = Some e"
    by (rule find_first)
  with assms(1) r show ?thesis
    by (simp add: getEvaluations_def getEvaluations_loop_eq)
qed

lemma getNodes_abort:
  assumes "Nodes_List c = Inr (pre @ n # post)"
    and "\<forall>n'\<in>set pre. \<not> isl (Nodes_Info c (nstub_ID n'))"
    and "Nodes_Info c (nstub_ID n) = Inl err"
  shows "getNodes c = Inl (errors_Wrap err ''querying node'')"
proof -
  from assms(3) have "isl (Nodes_Info c (nstub_ID n))" by simp
  with assms(2) have "find (\<lambda>n. isl (Nodes_Info c (nstub_ID n))) (pre @ n # post) = Some n"
    by (rule find_first)
  with assms(1,3) show ?thesis
    by (simp add: getNodes_def getNodes_loop_eq)
qed


text \<open>
  C6, as the code has it. A "job not found" answer when a job found in an earlier listing
  is fetched again is not fatal in either probe: the long-running scan returns what it
  returns on the listing without that job, and resource aggregation reports the status
  "deleted" with no demand vector (the nil pointer, not a zero vector), so that the
  evaluation scan returns what it returns on the listing without that evaluation. Every
  other error of a remote query ends the scan at the first query that fails and is
  returned (the error of a node query wrapped with "querying node"), and \<open>main\<close> ends
  with it as a fatal error.
\<close>

theorem job_not_found_tolerated:
  "(Jobs_List c = Inr (pre @ job # post) \<and> Jobs_Allocations c (stub_ID job) = Inl err \<and>
      strings_Contains (Error err) ''job not found'' \<longrightarrow>
      findLongRunningJobs c thresDate =
        findLongRunningJobs (c\<lparr>Jobs_List := Inr (pre @ post)\<rparr>) thresDate)
   \<and> (Jobs_Info c jid = Inl err \<and> strings_Contains (Error err) ''job not found'' \<longrightarrow>
        getResourcesForJob c jid = Inr (''deleted'', None))
   \<and> (Evaluations_List c = Inr (epre @ e # epost) \<and> Jobs_Info c (eval_JobID e) = Inl err \<and>
        strings_Contains (Error err) ''job not found'' \<longrightarrow>
        getEvaluations c = getEvaluations (c\<lparr>Evaluations_List := Inr (epre @ epost)\<rparr>))
   \<and> (Jobs_List c = Inl err \<longrightarrow> findLongRunningJobs c thresDate = Inl err)
   \<and> (Jobs_List c = Inr (pre @ job # post) \<and> (\<forall>j\<in>set pre. \<not> spec_alloc_fatal c j) \<and>
        stub_Status job = ''running'' \<and> Jobs_Allocations c (stub_ID job) = Inl err \<and>
        \<not> strings_Contains (Error err) ''job not found'' \<longrightarrow>
        findLongRunningJobs c thresDate = Inl err)
   \<and> (findLongRunningJobs c thresDate = Inl err \<longrightarrow> main_long_running c thresDate = Fatal err)
   \<and> (Jobs_Info c jid = Inl err \<and> \<not> strings_Contains (Error err) ''job not found'' \<longrightarrow>
        getResourcesForJob c jid = Inl err)
   \<and> (Evaluations_List c = Inl err \<longrightarrow> getEvaluations c = Inl err)
   \<and> (Evaluations_List c = Inr (epre @ e # epost) \<and> (\<forall>e'\<in>set epre. \<not> spec_eval_fatal c e') \<and>
        FailedTGAllocs e \<noteq> [] \<and> Jobs_Info c (eval_JobID e) = Inl err \<and>
        \<not> strings_Contains (Error err) ''job not found'' \<longrightarrow>
        getEvaluations c = Inl err)
   \<and> (Nodes_Info c ident = Inl err \<longrightarrow>
        getResourcesForNode c ident = Inl (errors_Wrap err ''querying node''))
   \<and> (Nodes_List c = Inl err \<longrightarrow> getNodes c = Inl err)
   \<and> (Nodes_List c = Inr (npre @ n # npost) \<and>
        (\<forall>n'\<in>set npre. \<not> isl (Nodes_Info c (nstub_ID n'))) \<and>
        Nodes_Info c (nstub_ID n) = Inl err \<longrightarrow>
        getNodes c = Inl (errors_Wrap err ''querying node''))
   \<and> (getEvaluations c = Inl err \<longrightarrow> main_unplaceable_jobs c = Fatal err)
   \<and> (getEvaluations c = Inr failingJobs \<and> failingJobs \<noteq> [] \<and> getNodes c = Inl err \<longrightarrow>
        main_unplaceable_jobs c = Fatal err)"
proof (intro conjI impI)
  assume "Jobs_List c = Inr (pre @ job # post) \<and> Jobs_Allocations c (stub_ID job) = Inl err \<and>
      strings_Contains (Error err) ''job not found''"
  then show "findLongRunningJobs c thresDate =
        findLongRunningJobs (c\<lparr>Jobs_List := Inr (pre @ post)\<rparr>) thresDate"
    by (intro findLongRunningJobs_skip [of c pre job post err]) simp_all
next
  assume "Jobs_Info c jid = Inl err \<and> strings_Contains (Error err) ''job not found''"
  then show "getResourcesForJob c jid = Inr (''deleted'', None)"
    by (simp add: getResourcesForJob_def)
next
  assume "Evaluations_List c = Inr (epre @ e # epost) \<and> Jobs_Info c (eval_JobID e) = Inl err \<and>
        strings_Contains (Error err) ''job not found''"
  then show "getEvaluations c = getEvaluations (c\<lparr>Evaluations_List := Inr (epre @ epost)\<rparr>)"
    by (intro getEvaluations_skip [of c epre e epost err]) simp_all
next
  assume "Jobs_List c = Inl err"
  then show "findLongRunningJobs c thresDate = Inl err"
    by (simp add: findLongRunningJobs_def)
next
  assume "Jobs_List c = Inr (pre @ job # post) \<and> (\<forall>j\<in>set pre. \<not> spec_alloc_fatal c j) \<and>
        stub_Status job = ''running'' \<and> Jobs_Allocations c (stub_ID job) = Inl err \<and>
        \<not> strings_Contains (Error err) ''job not found''"
  then show "findLongRunningJobs c thresDate = Inl err"
    by (intro findLongRunningJobs_abort [of c pre job post err]) simp_all
next
  assume "findLongRunningJobs c thresDate = Inl err"
  then show "main_long_running c thresDate = Fatal err"
    by (simp add: main_long_running_def)
next
  assume "Jobs_Info c jid = Inl err \<and> \<not> strings_Contains (Error err) ''job not found''"
  then show "getResourcesForJob c jid = Inl err"
    by (simp add: getResourcesForJob_def)
next
  assume "Evaluations_List c = Inl err"
  then show "getEvaluations c = Inl err"
    by (simp add: getEvaluations_def)
next
  assume "Evaluations_List c = Inr (epre @ e # epost) \<and> (\<forall>e'\<in>set epre. \<not> spec_eval_fatal c e') \<and>
        FailedTGAllocs e \<noteq> [] \<and> Jobs_Info c (eval_JobID e) = Inl err \<and>
        \<not> strings_Contains (Error err) ''job not found''"
  then show "getEvaluations c = Inl err"
    by (intro getEvaluations_abort [of c epre e epost err]) simp_all
next
  assume "Nodes_Info c ident = Inl err"
  then show "getResourcesForNode c ident = Inl (errors_Wrap err ''querying node'')"
    by (simp add: getResourcesForNode_def)
next
  assume "Nodes_List c = Inl err"
  then show "getNodes c = Inl err"
    by (simp add: getNodes_def)
next
  assume "Nodes_List c = Inr (npre @ n # npost) \<and>
        (\<forall>n'\<in>set npre. \<not> isl (Nodes_Info c (nstub_ID n'))) \<and>
        Nodes_Info c (nstub_ID n) = Inl err"
  then show "getNodes c = Inl (errors_Wrap err ''querying node'')"
    by (intro getNodes_abort [of c npre n npost err]) simp_all
next
  assume "getEvaluations c = Inl err"
  then show "main_unplaceable_jobs c = Fatal err"
    by (simp add: main_unplaceable_jobs_def)
next
  assume "getEvaluations c = Inr failingJobs \<and> failingJobs \<noteq> [] \<and> getNodes c = Inl err"
  then show "main_unplaceable_jobs c = Fatal err"
    by (simp add: main_unplaceable_jobs_def)
qed


text \<open>
  Each part on the small cluster: the job that is gone changes neither scan, and each of
  the failing queries ends its scan with the error.
\<close>

theorem job_not_found_tolerated_witness:
  "findLongRunningJobs demo_client \<lparr>sec = 10, nsec = 0\<rparr> =
     findLongRunningJobs
       (demo_client\<lparr>Jobs_List := Inr
          [\<lparr>stub_ID = ''web'', stub_Status = ''running'', stub_SubmitTime = 1000\<rparr>,
           \<lparr>stub_ID = ''batch'', stub_Status = ''pending'', stub_SubmitTime = 2000\<rparr>,
           \<lparr>stub_ID = ''api'', stub_Status = ''running'', stub_SubmitTime = 4000\<rparr>]\<rparr>)
       \<lparr>sec = 10, nsec = 0\<rparr>
   \<and> getResourcesForJob demo_client ''gone'' = Inr (''deleted'', None)
   \<and> getEvaluations demo_client =
     getEvaluations
       (demo_client\<lparr>Evaluations_List := Inr
          [\<lparr>eval_JobID = ''batch'',
            FailedTGAllocs =
              [(''tg1'', \<lparr>DimensionExhausted = [(''memory'', 1), (''cpu'', 2)]\<rparr>),
               (''tg2'', \<lparr>DimensionExhausted = [(''memory'', 1)]\<rparr>)]\<rparr>,
           \<lparr>eval_JobID = ''web'',
            FailedTGAllocs = [(''g'', \<lparr>DimensionExhausted = [(''disk'', 1)]\<rparr>)]\<rparr>,
           \<lparr>eval_JobID = ''batch'', FailedTGAllocs = []\<rparr>]\<rparr>)
   \<and> findLongRunningJobs demo_jobs_down \<lparr>sec = 10, nsec = 0\<rparr> =
       Inl (errorString ''connection refused'')
   \<and> findLongRunningJobs demo_allocs_timeout \<lparr>sec = 10, nsec = 0\<rparr> =
       Inl (errorString ''timeout'')
   \<and> main_long_running demo_jobs_down \<lparr>sec = 10, nsec = 0\<rparr> =
       Fatal (errorString ''connection refused'')
   \<and> getResourcesForJob demo_info_timeout ''batch'' = Inl (errorString ''timeout'')
   \<and> getEvaluations demo_evals_down = Inl (errorString ''connection refused'')
   \<and> getEvaluations demo_info_timeout = Inl (errorString ''timeout'')
   \<and> getResourcesForNode demo_client ''n9'' =
       Inl (errorString ''querying node: Unexpected response code: 404 (node not found)'')
   \<and> getNodes demo_nodes_down = Inl (errorString ''connection refused'')
   \<and> getNodes demo_node_lost =
       Inl (errorString ''querying node: Unexpected response code: 404 (node not found)'')
   \<and> main_unplaceable_jobs demo_evals_down = Fatal (errorString ''connection refused'')
   \<and> main_unplaceable_jobs demo_nodes_down = Fatal (errorString ''connection refused'')"
proof -
  note T = job_not_found_tolerated
  let ?nf = "errorString ''Unexpected response code: 404 (job not found)''"
  let ?nn = "errorString ''Unexpected response code: 404 (node not found)''"
  let ?web = "\<lparr>stub_ID = ''web'', stub_Status = ''running'', stub_SubmitTime = 1000\<rparr>"
  let ?batch = "\<lparr>stub_ID = ''batch'', stub_Status = ''pending'', stub_SubmitTime = 2000\<rparr>"
  let ?gone = "\<lparr>stub_ID = ''gone'', stub_Status = ''running'', stub_SubmitTime = 3000\<rparr>"
  let ?api = "\<lparr>stub_ID = ''api'', stub_Status = ''running'', stub_SubmitTime = 4000\<rparr>"
  let ?e1 = "\<lparr>eval_JobID = ''batch'',
            FailedTGAllocs =
              [(''tg1'', \<lparr>DimensionExhausted = [(''memory'', 1), (''cpu'', 2)]\<rparr>),
               (''tg2'', \<lparr>DimensionExhausted = [(''memory'', 1)]\<rparr>)]\<rparr>"
  let ?e2 = "\<lparr>eval_JobID = ''web'',
            FailedTGAllocs = [(''g'', \<lparr>DimensionExhausted = [(''disk'', 1)]\<rparr>)]\<rparr>"
  let ?e3 = "\<lparr>eval_JobID = ''gone'',
            FailedTGAllocs = [(''g'', \<lparr>DimensionExhausted = [(''cpu'', 1)]\<rparr>)]\<rparr>"
  let ?e4 = "\<lparr>eval_JobID = ''batch'', FailedTGAllocs = []\<rparr>"
  let ?t = "\<lparr>sec = 10, nsec = 0\<rparr>"
  have w1: "findLongRunningJobs demo_client ?t =
     findLongRunningJobs (demo_client\<lparr>Jobs_List := Inr [?web, ?batch, ?api]\<rparr>) ?t"
    using T [where c = demo_client and pre = "[?web, ?batch]" and job = ?gone and post = "[?api]"
               and err = ?nf and thresDate = ?t, THEN conjunct1]
    by (simp add: demo_client_def)
  have w2: "getResourcesForJob demo_client ''gone'' = Inr (''deleted'', None)"
    using T [where c = demo_client and jid = "''gone''" and err = ?nf,
             THEN conjunct2, THEN conjunct1]
    by (simp add: demo_client_def)
  have w3: "getEvaluations demo_client =
     getEvaluations (demo_client\<lparr>Evaluations_List := Inr [?e1, ?e2, ?e4]\<rparr>)"
    using T [where c = demo_client and epre = "[?e1, ?e2]" and e = ?e3 and epost = "[?e4]"
               and err = ?nf, THEN conjunct2, THEN conjunct2, THEN conjunct1]
    by (simp add: demo_client_def)
  have w4: "findLongRunningJobs demo_jobs_down ?t = Inl (errorString ''connection refused'')"
    using T [where c = demo_jobs_down and err = "errorString ''connection refused''"
               and thresDate = ?t,
             THEN conjunct2, THEN conjunct2, THEN conjunct2, THEN conjunct1]
    by (simp add: demo_jobs_down_def)
  have w5: "findLongRunningJobs demo_allocs_timeout ?t = Inl (errorString ''timeout'')"
    using T [where c = demo_allocs_timeout and pre = "[?web, ?batch, ?gone]" and job = ?api
               and post = "[]" and err = "errorString ''timeout''" and thresDate = ?t,
             THEN conjunct2, THEN conjunct2, THEN conjunct2, THEN conjunct2, THEN conjunct1]
    by (simp add: demo_allocs_timeout_def demo_client_def spec_alloc_fatal_def)
  have w6: "main_long_running demo_jobs_down ?t = Fatal (errorString ''connection refused'')"
    using T [where c = demo_jobs_down and err = "errorString ''connection refused''"
               and thresDate = ?t,
             THEN conjunct2, THEN conjunct2, THEN conjunct2, THEN conjunct2, THEN conjunct2,
             THEN conjunct1] w4
    by simp
  have w7: "getResourcesForJob demo_info_timeout ''batch'' = Inl (errorString ''timeout'')"
    using T [where c = demo_info_timeout and jid = "''batch''" and err = "errorString ''timeout''",
             THEN conjunct2, THEN conjunct2, THEN conjunct2, THEN conjunct2, THEN conjunct2,
             THEN conjunct2, THEN conjunct1]
    by (simp add: demo_info_timeout_def)
  have w8: "getEvaluations demo_evals_down = Inl (errorString ''connection refused'')"
    using T [where c = demo_evals_down and err = "errorString ''connection refused''",
             THEN conjunct2, THEN conjunct2, THEN conjunct2, THEN conjunct2, THEN conjunct2,
             THEN conjunct2, THEN conjunct2, THEN conjunct1]
    by (simp add: demo_evals_down_def)
  have w9: "getEvaluations demo_info_timeout = Inl (errorString ''timeout'')"
    using T [where c = demo_info_timeout and epre = "[]" and e = ?e1 and epost = "[?e2, ?e3, ?e4]"
               and err = "errorString ''timeout''",
             THEN conjunct2, THEN conjunct2, THEN conjunct2, THEN conjunct2, THEN conjunct2,
             THEN conjunct2, THEN conjunct2, THEN conjunct2, THEN conjunct1]
    by (simp add: demo_info_timeout_def demo_client_def)
  have w10: "getResourcesForNode demo_client ''n9'' =
       Inl (errorString ''querying node: Unexpected response code: 404 (node not found)'')"
    using T [where c = demo_client and ident = "''n9''" and err = ?nn,
             THEN conjunct2, THEN conjunct2, THEN conjunct2, THEN conjunct2, THEN conjunct2,
             THEN conjunct2, THEN conjunct2, THEN conjunct2, THEN conjunct2, THEN conjunct1]
    by (simp add: demo_client_def errors_Wrap_def)
  have w11: "getNodes demo_nodes_down = Inl (errorString ''connection refused'')"
    using T [where c = demo_nodes_down and err = "errorString ''connection refused''",
             THEN conjunct2, THEN conjunct2, THEN conjunct2, THEN conjunct2, THEN conjunct2,
             THEN conjunct2, THEN conjunct2, THEN conjunct2, THEN conjunct2, THEN conjunct2,
             THEN conjunct1]
    by (simp add: demo_nodes_down_def)
  have w12: "getNodes demo_node_lost =
       Inl (errorString ''querying node: Unexpected response code: 404 (node not found)'')"
    using T [where c = demo_node_lost and npre = "[\<lparr>nstub_ID = ''n1''\<rparr>]"
               and n = "\<lparr>nstub_ID = ''n9''\<rparr>" and npost = "[]" and err = ?nn,
             THEN conjunct2, THEN conjunct2, THEN conjunct2, THEN conjunct2, THEN conjunct2,
             THEN conjunct2, THEN conjunct2, THEN conjunct2, THEN conjunct2, THEN conjunct2,
             THEN conjunct2, THEN conjunct1]
    by (simp add: demo_node_lost_def demo_client_def errors_Wrap_def)
  have w13: "main_unplaceable_jobs demo_evals_down = Fatal (errorString ''connection refused'')"
    using T [where c = demo_evals_down and err = "errorString ''connection refused''",
             THEN conjunct2, THEN conjunct2, THEN conjunct2, THEN conjunct2, THEN conjunct2,
             THEN conjunct2, THEN conjunct2, THEN conjunct2, THEN conjunct2, THEN conjunct2,
             THEN conjunct2, THEN conjunct2, THEN conjunct1] w8
    by simp
  have ev: "getEvaluations demo_nodes_down =
     Inr [\<lparr>jobID = ''batch'', dimension = ''memory'',
            resources = Some \<lparr>CPU = 850, MemoryMB = 448, DiskMB = 410, IOPS = 0\<rparr>\<rparr>,
          \<lparr>jobID = ''batch'', dimension = ''cpu'',
            resources = Some \<lparr>CPU = 850, MemoryMB = 448, DiskMB = 410, IOPS = 0\<rparr>\<rparr>,
          \<lparr>jobID = ''batch'', dimension = ''memory'',
            resources = Some \<lparr>CPU = 850, MemoryMB = 448, DiskMB = 410, IOPS = 0\<rparr>\<rparr>]"
    by (simp add: demo_nodes_down_def getEvaluations_def demo_client_def getResourcesForJob_def
        demo_batch_def)
  have w14: "main_unplaceable_jobs demo_nodes_down = Fatal (errorString ''connection refused'')"
    using T [where c = demo_nodes_down and err = "errorString ''connection refused''"
               and failingJobs = "[\<lparr>jobID = ''batch'', dimension = ''memory'',
            resources = Some \<lparr>CPU = 850, MemoryMB = 448, DiskMB = 410, IOPS = 0\<rparr>\<rparr>,
          \<lparr>jobID = ''batch'', dimension = ''cpu'',
            resources = Some \<lparr>CPU = 850, MemoryMB = 448, DiskMB = 410, IOPS = 0\<rparr>\<rparr>,
          \<lparr>jobID = ''batch'', dimension = ''memory'',
            resources = Some \<lparr>CPU = 850, MemoryMB = 448, DiskMB = 410, IOPS = 0\<rparr>\<rparr>]",
             THEN conjunct2, THEN conjunct2, THEN conjunct2, THEN conjunct2, THEN conjunct2,
             THEN conjunct2, THEN conjunct2, THEN conjunct2, THEN conjunct2, THEN conjunct2,
             THEN conjunct2, THEN conjunct2, THEN conjunct2] ev w11
    by simp
  from w1 w2 w3 w4 w5 w6 w7 w8 w9 w10 w11 w12 w13 w14 show ?thesis
    by (intro conjI)
qed


text \<open>
  C6 as stated says that a job that is not found is reported with a zero demand vector.
  The job that is gone from the small cluster is reported with the nil pointer, which is
  not the vector whose components are zero.
\<close>

theorem getResourcesForJob_deleted_counterexample:
  "Jobs_Info demo_client ''gone'' =
     Inl (errorString ''Unexpected response code: 404 (job not found)'')
   \<and> getResourcesForJob demo_client ''gone'' = Inr (''deleted'', None)
   \<and> getResourcesForJob demo_client ''gone'' \<noteq>
       Inr (''deleted'', Some \<lparr>CPU = 0, MemoryMB = 0, DiskMB = 0, IOPS = 0\<rparr>)"
  by (simp add: getResourcesForJob_def demo_client_def)


end
